theory Spec2Isabelle
  imports Complex_Main "HOL-Library.Sublist" "HOL-Library.Product_Lexorder" "HOL-Library.Multiset" "HOL-Library.AList"
begin

section \<open>Python strings\<close>

text \<open>
  A Python \<open>str\<close> is modelled as a HOL \<open>string\<close> holding the UTF-8 bytes of the text.
  \<open>str.lower\<close>, \<open>str.upper\<close> and \<open>str.strip\<close> are modelled on the ASCII range: the
  letters \<open>A\<close> to \<open>Z\<close> change case, and the whitespace characters are the ten ASCII
  characters for which \<open>str.isspace\<close> holds (codes 9 to 13 and 28 to 32). Bytes of
  code points outside ASCII are carried through unchanged. Floats are modelled as exact
  rationals.
\<close>

definition py_isspace :: "char \<Rightarrow> bool" where
  "py_isspace c = (of_char c \<in> {9, 10, 11, 12, 13, 28, 29, 30, 31, 32 :: nat})"

definition py_lower_char :: "char \<Rightarrow> char" where
  "py_lower_char c =
     (let n = (of_char c :: nat) in if 65 \<le> n \<and> n \<le> 90 then char_of (n + 32) else c)"

definition py_lower :: "string \<Rightarrow> string" where
  "py_lower s = map py_lower_char s"

text \<open>\<open>s.strip()\<close>: leading and trailing whitespace removed.\<close>

definition py_strip :: "string \<Rightarrow> string" where
  "py_strip s = rev (dropWhile py_isspace (rev (dropWhile py_isspace s)))"

text \<open>\<open>s.replace(old, new)\<close> for one-character \<open>old\<close> and \<open>new\<close>.\<close>

definition py_replace_char :: "char \<Rightarrow> char \<Rightarrow> string \<Rightarrow> string" where
  "py_replace_char old new s = map (\<lambda>c. if c = old then new else c) s"

section \<open>Symptom extractor (nlp\_processor.py)\<close>

text \<open>
  \<open>SymptomExtractor._normalize_symptom_name\<close>:
  \<^verbatim>\<open>return symptom.lower().strip().replace(' ', '_').replace('-', '_')\<close>
\<close>

definition normalize_symptom_name :: "string \<Rightarrow> string" where
  "normalize_symptom_name symptom =
     py_replace_char (CHR ''-'') (CHR ''_'')
       (py_replace_char (CHR '' '') (CHR ''_'') (py_strip (py_lower symptom)))"

text \<open>The two replacements of \<open>_normalize_symptom_name\<close> taken together.\<close>

definition separators :: "string \<Rightarrow> string" where
  "separators s =
     py_replace_char (CHR ''-'') (CHR ''_'') (py_replace_char (CHR '' '') (CHR ''_'') s)"

section \<open>Knowledge graph store and query engine (query\_engine.py)\<close>

subsection \<open>Result dictionaries\<close>

text \<open>
  The dictionary returned by \<open>get_specialty_for_disease\<close>, keys \<open>specialty\<close>,
  \<open>department\<close> and \<open>location\<close>. The response templates read it with
  \<open>spec.get(key, default)\<close>, so every key is optional.
\<close>

record specialty_info =
  spec_specialty :: "string option"
  spec_department :: "string option"
  spec_location :: "string option"

text \<open>
  A disease dictionary, as \<open>query_diseases_by_symptoms\<close> and \<open>get_disease_details\<close>
  build it and as \<open>rank_diseases\<close> and the response templates read it. A key that the
  code reads with \<open>d.get(key, default)\<close> or tests with \<open>key in d\<close> is optional, and
  \<open>None\<close> says that the key is absent; a key read with \<open>d[key]\<close> is required. A key
  that is present holds a value of the type the engine stores under it: a string under
  \<open>urgency\<close>, a number under \<open>match_score\<close> and \<open>match_percentage\<close>, lists of
  strings under \<open>symptoms\<close>, \<open>matched_symptoms\<close> and \<open>precautions\<close>. A dictionary
  that holds Python's \<open>None\<close> under one of these keys is not built anywhere in the code
  and is not a value of this type. Only \<open>specialty\<close> is stored as it comes from
  \<open>get_specialty_for_disease\<close>, which may be \<open>None\<close>; the code reads it through the
  test \<open>'specialty' in d and d['specialty']\<close>, which treats an absent key and a
  \<open>None\<close> value alike, so for this key \<open>None\<close> stands for both.
\<close>

record disease =
  uri :: string
  name :: string
  description :: string
  urgency :: "string option"
  symptoms :: "string list option"
  matched_symptoms :: "string list option"
  match_score :: "rat option"
  match_percentage :: "rat option"
  specialty :: "specialty_info option"
  precautions :: "string list option"

subsection \<open>Ranking\<close>

text \<open>
  \<open>xs.sort(key=key, reverse=True)\<close>. CPython reverses the list, sorts it stably in
  ascending order of the key and reverses the result, so that elements with equal keys
  keep their original relative order. \<open>sort_key\<close> is the stable insertion sort of the
  HOL library.
\<close>

definition py_sort_reverse :: "('a \<Rightarrow> 'k::linorder) \<Rightarrow> 'a list \<Rightarrow> 'a list" where
  "py_sort_reverse key xs = rev (sort_key key (rev xs))"

text \<open>\<open>urgency_priority = {'high': 3, 'medium': 2, 'low': 1}\<close>, as a lookup.\<close>

definition urgency_priority :: "string \<Rightarrow> nat option" where
  "urgency_priority u =
     (if u = ''high'' then Some 3 else if u = ''medium'' then Some 2
      else if u = ''low'' then Some 1 else None)"

text \<open>
  \<open>urgency_priority.get(disease.get('urgency', 'medium').lower(), 2)\<close>
\<close>

definition urgency_score :: "disease \<Rightarrow> nat" where
  "urgency_score d =
     (case urgency_priority (py_lower (case urgency d of None \<Rightarrow> ''medium'' | Some u \<Rightarrow> u)) of
        None \<Rightarrow> 2 | Some n \<Rightarrow> n)"

text \<open>\<open>disease.get('match_score', 0)\<close>\<close>

definition score_of :: "disease \<Rightarrow> rat" where
  "score_of d = (case match_score d of None \<Rightarrow> 0 | Some s \<Rightarrow> s)"

text \<open>
  \<open>sort_key\<close> of \<open>rank_diseases\<close>: the tuple \<open>(match_score, urgency_score)\<close>, compared
  lexicographically as Python compares tuples.
\<close>

definition rank_sort_key :: "disease \<Rightarrow> rat \<times> nat" where
  "rank_sort_key d = (score_of d, urgency_score d)"

text \<open>\<open>MedicalKnowledgeGraph.rank_diseases\<close>; it does not read \<open>user_symptoms\<close>.\<close>

definition rank_diseases :: "disease list \<Rightarrow> string list \<Rightarrow> disease list" where
  "rank_diseases diseases user_symptoms = py_sort_reverse rank_sort_key diseases"

text \<open>A disease dictionary with the keys the ranking reads, for examples.\<close>

definition ranked_entry :: "string \<Rightarrow> rat \<Rightarrow> string option \<Rightarrow> disease" where
  "ranked_entry n s u =
     \<lparr> uri = '''', name = n, description = '''', urgency = u, symptoms = None,
       matched_symptoms = None, match_score = Some s, match_percentage = Some (s * 10),
       specialty = None, precautions = None \<rparr>"

subsection \<open>The RDF graph and its SPARQL queries\<close>

text \<open>
  The store is an rdflib \<open>Graph\<close>: a set of triples of RDF terms, here the list of its
  triples. The ingestion (build\_graph.py) writes URI references and plain string
  literals for every property the queries read, so a literal is its string. The order
  in which rdflib yields the solutions of a query is not specified; the model yields
  them in the order of the list, and no theorem depends on that order.
\<close>

datatype node = URIRef string | Literal string | BNode string

type_synonym triple = "node \<times> node \<times> node"

type_synonym graph = "triple list"

datatype py_exception = FileNotFoundError | ParseException

text \<open>The namespaces \<open>MED\<close> and \<open>INST\<close>, and \<open>rdf:type\<close>.\<close>

definition MED :: "string \<Rightarrow> node" where
  "MED local = URIRef (''http://medbot.org/ontology#'' @ local)"

definition INST :: "string \<Rightarrow> node" where
  "INST local = URIRef (''http://medbot.org/instances#'' @ local)"

definition RDF_type :: node where
  "RDF_type = URIRef ''http://www.w3.org/1999/02/22-rdf-syntax-ns#type''"

text \<open>\<open>str(t)\<close> of an RDF term.\<close>

definition py_str :: "node \<Rightarrow> string" where
  "py_str n = (case n of URIRef s \<Rightarrow> s | Literal s \<Rightarrow> s | BNode s \<Rightarrow> s)"

text \<open>
  \<open>str(row.x) if row.x else dflt\<close>: an unbound variable is \<open>None\<close>, and a term is
  false when its string is empty.
\<close>

definition str_or :: "node option \<Rightarrow> string \<Rightarrow> string" where
  "str_or v dflt =
     (case v of None \<Rightarrow> dflt | Some n \<Rightarrow> if py_str n \<noteq> [] then py_str n else dflt)"

text \<open>
  The queries are built by splicing Python strings into the query text: a disease URI
  between \<open><\<close> and \<open>>\<close>, a symptom name between double quotes. The spliced text
  denotes that URI, or that literal, exactly when it is the body of one SPARQL token:
  \<open>iri_ok\<close> for an \<open>IRIREF\<close> (no control character or space, none of
  \<open>< > " { } | ^ ` \\<close>), \<open>literal_ok\<close> for a string literal without escapes (no double
  quote, backslash, line feed or carriage return). Any other spliced text yields a
  different query text; the model takes it as rejected by the parser of
  \<open>Graph.query\<close>, which raises, and the theorems that depend on the spliced text
  denoting itself state \<open>iri_ok\<close> or \<open>literal_ok\<close> as a hypothesis.
\<close>

definition iri_ok :: "string \<Rightarrow> bool" where
  "iri_ok s =
     (\<forall>c \<in> set s. (of_char c :: nat) > 32 \<and> c \<notin> set ''<>{}|^`'' \<and>
        c \<noteq> CHR 0x22 \<and> c \<noteq> CHR 0x5C)"

definition literal_ok :: "string \<Rightarrow> bool" where
  "literal_ok s =
     (\<forall>c \<in> set s. c \<noteq> CHR 0x22 \<and> c \<noteq> CHR 0x5C \<and> c \<noteq> CHR 0x0A \<and> c \<noteq> CHR 0x0D)"

text \<open>The objects \<open>?o\<close> of the triple pattern \<open>s p ?o\<close>.\<close>

definition objects :: "graph \<Rightarrow> node \<Rightarrow> node \<Rightarrow> node list" where
  "objects g s p = [ob. (s', p', ob) \<leftarrow> g, s' = s \<and> p' = p]"

text \<open>
  \<open>OPTIONAL { ... }\<close>: the solutions of the group, or one solution that leaves its
  variables unbound when the group has none.
\<close>

definition optional :: "'a list \<Rightarrow> 'a option list" where
  "optional xs = (if xs = [] then [None] else map Some xs)"

text \<open>
  The query of \<open>query_diseases_by_symptoms\<close>, one solution
  \<open>(?disease, ?diseaseName, ?description, ?urgency)\<close> per match:
  \<^verbatim>\<open>
  SELECT DISTINCT ?disease ?diseaseName ?description ?urgency
  WHERE { ?disease rdf:type med:Disease .
          ?disease med:diseaseName ?diseaseName .
          ?disease med:hasSymptom ?symptom .
          ?symptom med:symptomName ?symptomName .
          FILTER(?symptomName IN ({symptom_filter}))
          OPTIONAL { ?disease med:description ?description }
          OPTIONAL { ?disease med:urgencyLevel ?urgency } }
  \<close>
\<close>

type_synonym disease_row = "node \<times> node \<times> node option \<times> node option"

definition disease_solutions :: "graph \<Rightarrow> string list \<Rightarrow> disease_row list" where
  "disease_solutions g symptom_names =
     [(v_disease, v_diseaseName, v_description, v_urgency).
        (v_disease, p, c) \<leftarrow> g, p = RDF_type \<and> c = MED ''Disease'',
        v_diseaseName \<leftarrow> objects g v_disease (MED ''diseaseName''),
        v_symptom \<leftarrow> objects g v_disease (MED ''hasSymptom''),
        v_symptomName \<leftarrow> objects g v_symptom (MED ''symptomName''),
        v_symptomName \<in> Literal ` set symptom_names,
        v_description \<leftarrow> optional (objects g v_disease (MED ''description'')),
        v_urgency \<leftarrow> optional (objects g v_disease (MED ''urgencyLevel''))]"

definition select_diseases_by_symptoms ::
  "graph \<Rightarrow> string list \<Rightarrow> py_exception + disease_row list" where
  "select_diseases_by_symptoms g symptom_names =
     (if \<not> list_all literal_ok symptom_names then Inl ParseException
      else Inr (remdups (disease_solutions g symptom_names)))"

text \<open>
  The query of \<open>_get_disease_symptoms\<close>:
  \<^verbatim>\<open>
  SELECT ?symptomName
  WHERE { <{disease_uri}> med:hasSymptom ?symptom .
          ?symptom med:symptomName ?symptomName . }
  \<close>
\<close>

definition select_disease_symptoms :: "graph \<Rightarrow> string \<Rightarrow> py_exception + node list" where
  "select_disease_symptoms g disease_uri =
     (if \<not> iri_ok disease_uri then Inl ParseException
      else Inr [v_symptomName.
                  v_symptom \<leftarrow> objects g (URIRef disease_uri) (MED ''hasSymptom''),
                  v_symptomName \<leftarrow> objects g v_symptom (MED ''symptomName'')])"

text \<open>
  \<open>_get_disease_symptoms\<close>: \<open>symptoms = []\<close>, the query in a \<open>try\<close> whose
  \<open>except Exception\<close> logs and keeps the empty list.
\<close>

definition get_disease_symptoms :: "graph \<Rightarrow> string \<Rightarrow> string list" where
  "get_disease_symptoms g disease_uri =
     (case select_disease_symptoms g disease_uri of
        Inl e \<Rightarrow> []
      | Inr qres \<Rightarrow> map py_str qres)"

subsection \<open>Match score and symptom query\<close>

text \<open>\<open>_calculate_match_score\<close>; \<open>len(matched)\<close> is the size of a set intersection.\<close>

definition calculate_match_score :: "string list \<Rightarrow> string list \<Rightarrow> rat" where
  "calculate_match_score user_symptoms disease_symptoms =
     (if user_symptoms = [] \<or> disease_symptoms = [] then 0
      else let matched = set user_symptoms \<inter> set disease_symptoms;
               match_ratio = of_nat (card matched) / of_nat (length user_symptoms);
               score = match_ratio * 10
           in min score 10)"

text \<open>The body of the loop over the solutions: the dictionary appended for one row.\<close>

definition disease_result :: "graph \<Rightarrow> string list \<Rightarrow> disease_row \<Rightarrow> disease" where
  "disease_result g symptom_names row =
     (case row of (v_disease, v_diseaseName, v_description, v_urgency) \<Rightarrow>
        let disease_uri = py_str v_disease;
            disease_symptoms = get_disease_symptoms g disease_uri;
            score = calculate_match_score symptom_names disease_symptoms
        in \<lparr> uri = disease_uri,
             name = str_or (Some v_diseaseName) ''Unknown'',
             description = str_or v_description '''',
             urgency = Some (str_or v_urgency ''medium''),
             symptoms = Some disease_symptoms,
             matched_symptoms = Some [s \<leftarrow> symptom_names. s \<in> set disease_symptoms],
             match_score = Some score,
             match_percentage = Some (score * 10),
             specialty = None,
             precautions = None \<rparr>)"

text \<open>
  \<open>query_diseases_by_symptoms\<close>: the empty list for no symptoms; otherwise
  \<open>results = []\<close>, then in a \<open>try\<close> the query, the loop and the ranking. When the query
  raises, \<open>except Exception\<close> logs and \<open>results\<close> is returned as it is, empty.
\<close>

definition query_diseases_by_symptoms :: "graph \<Rightarrow> string list \<Rightarrow> disease list" where
  "query_diseases_by_symptoms g symptom_names =
     (if symptom_names = [] then []
      else case select_diseases_by_symptoms g symptom_names of
             Inl e \<Rightarrow> []
           | Inr qres \<Rightarrow> rank_diseases (map (disease_result g symptom_names) qres) symptom_names)"

subsection \<open>Detail enrichment\<close>









subsection \<open>Loading the store\<close>

text \<open>
  What \<open>Graph.parse(path, format='turtle')\<close> finds at the path: no file, a file that
  does not parse (with the triples the parser added to the graph before it failed), or
  a Turtle file with its triples. \<open>graph_parse\<close> gives the graph afterwards and the
  exception raised, if any.
\<close>

datatype snapshot = Missing | Malformed "triple list" | Turtle "triple list"

datatype log_record = Info string | Warning string | Error string

record knowledge_graph =
  graph :: graph
  ontology_path :: string

definition graph_parse :: "snapshot \<Rightarrow> graph \<Rightarrow> graph \<times> py_exception option" where
  "graph_parse snap g =
     (case snap of
        Missing \<Rightarrow> (g, Some FileNotFoundError)
      | Malformed ts \<Rightarrow> (g @ ts, Some ParseException)
      | Turtle ts \<Rightarrow> (g @ ts, None))"

text \<open>
  \<open>_load_graph\<close>, with the log records it writes. Its result is \<open>Inl\<close> when it raises:
  \<^verbatim>\<open>
  try:
      logger.info(f"Loading medical ontology from {self.ontology_path}")
      self.graph.parse(self.ontology_path, format='turtle')
      logger.info(f"Loaded graph with {len(self.graph)} triples")
  except FileNotFoundError:
      logger.error(f"Ontology file not found: {self.ontology_path}")
  except Exception as e:
      logger.error(f"Error loading graph: {e}")
  \<close>
\<close>

definition load_graph ::
  "snapshot \<Rightarrow> knowledge_graph \<Rightarrow> py_exception + knowledge_graph \<times> log_record list" where
  "load_graph snap self =
     (case graph_parse snap (graph self) of
        (g', None) \<Rightarrow>
          Inr (self\<lparr>graph := g'\<rparr>, [Info ''Loading medical ontology'', Info ''Loaded graph''])
      | (g', Some FileNotFoundError) \<Rightarrow>
          Inr (self\<lparr>graph := g'\<rparr>,
               [Info ''Loading medical ontology'', Error ''Ontology file not found''])
      | (g', Some e) \<Rightarrow>
          Inr (self\<lparr>graph := g'\<rparr>,
               [Info ''Loading medical ontology'', Error ''Error loading graph'']))"

text \<open>
  \<open>MedicalKnowledgeGraph.__init__\<close>: an empty \<open>Graph()\<close>, then \<open>_load_graph\<close>. The
  namespace bindings that follow do not change the triples.
\<close>

definition MedicalKnowledgeGraph_init ::
  "string \<Rightarrow> snapshot \<Rightarrow> py_exception + knowledge_graph \<times> log_record list" where
  "MedicalKnowledgeGraph_init path snap =
     load_graph snap \<lparr> graph = [], ontology_path = path \<rparr>"

text \<open>A small store for the examples: two diseases, one of them with a specialty.\<close>

definition example_graph :: graph where
  "example_graph =
     [(INST ''Disease_Fungal_infection'', RDF_type, MED ''Disease''),
      (INST ''Disease_Fungal_infection'', MED ''diseaseName'', Literal ''Fungal infection''),
      (INST ''Disease_Fungal_infection'', MED ''urgencyLevel'', Literal ''low''),
      (INST ''Spec_Dermatology'', MED ''specialtyName'', Literal ''Dermatology''),
      (INST ''Disease_Fungal_infection'', MED ''treatedBy'', INST ''Spec_Dermatology''),
      (INST ''Sym_itching'', MED ''symptomName'', Literal ''itching''),
      (INST ''Disease_Fungal_infection'', MED ''hasSymptom'', INST ''Sym_itching''),
      (INST ''Sym_skin_rash'', MED ''symptomName'', Literal ''skin_rash''),
      (INST ''Disease_Fungal_infection'', MED ''hasSymptom'', INST ''Sym_skin_rash''),
      (INST ''Disease_Flu'', RDF_type, MED ''Disease''),
      (INST ''Disease_Flu'', MED ''diseaseName'', Literal ''Flu''),
      (INST ''Sym_fever'', MED ''symptomName'', Literal ''fever''),
      (INST ''Disease_Flu'', MED ''hasSymptom'', INST ''Sym_fever'')]"

text \<open>The result for the disease \<open>Flu\<close> on the input \<open>skin_rash\<close>, \<open>fever\<close>.\<close>

definition flu_result :: disease where
  "flu_result = \<lparr>uri = ''http://medbot.org/instances#Disease_Flu'', name = ''Flu'',
     description = [], urgency = Some ''medium'',
     symptoms = Some [''fever''], matched_symptoms = Some [''fever''],
     match_score = Some 5, match_percentage = Some 50, specialty = None,
     precautions = None\<rparr>"

section \<open>Symptom extraction (nlp\_processor.py)\<close>

subsection \<open>Extraction entries and the extractor\<close>

text \<open>
  One entry of the list \<open>extract_symptoms\<close> returns: the dictionary with the keys
  \<open>symptom\<close>, \<open>normalized\<close>, \<open>confidence\<close> and \<open>method\<close>. Confidences are the
  decimal literals of the code, as rationals.
\<close>

record extraction =
  symptom :: string
  normalized :: string
  confidence :: rat
  extraction_method :: string

text \<open>
  The state of a \<open>SymptomExtractor\<close> that extraction reads. A Python \<open>dict\<close> is the
  list of its items in insertion order. A spaCy pipeline is the function from a text to
  the texts of the noun chunks of its document; \<open>None\<close> when the model is not installed.
\<close>

record extractor =
  symptoms_dict :: "(string \<times> string) list"
  symptom_synonyms :: "(string \<times> string) list"
  nlp_fr :: "(string \<Rightarrow> string list) option"
  nlp_en :: "(string \<Rightarrow> string list) option"

text \<open>\<open>sub in s\<close> on strings: \<open>sub\<close> occurs in \<open>s\<close> as a contiguous substring.\<close>

definition py_in :: "string \<Rightarrow> string \<Rightarrow> bool" where
  "py_in sub s = sublist sub s"

text \<open>\<open>s.split()\<close>: the maximal runs of non-whitespace characters.\<close>

fun split_words :: "string \<Rightarrow> string \<Rightarrow> string list" where
  "split_words cur [] = (if cur = [] then [] else [rev cur])"
| "split_words cur (c # cs) =
     (if py_isspace c then (if cur = [] then split_words [] cs else rev cur # split_words [] cs)
      else split_words (c # cur) cs)"

definition py_split :: "string \<Rightarrow> string list" where
  "py_split s = split_words [] s"

text \<open>
  \<open>d[key] = v\<close> on a dictionary: \<open>AList.update\<close> replaces the value of a present key in
  place and appends an absent key at the end, as Python does.
\<close>

definition py_setitem :: "'k \<Rightarrow> 'v \<Rightarrow> ('k \<times> 'v) list \<Rightarrow> ('k \<times> 'v) list" where
  "py_setitem k v d = AList.update k v d"

text \<open>
  \<open>_build_symptom_dictionaries\<close>, from the symptom names of the medical data in the
  order in which the set \<open>all_symptoms\<close> is iterated:
  \<open>self.symptoms_dict[normalized] = symptom\<close> for each.
\<close>

definition build_symptom_dictionaries :: "string list \<Rightarrow> (string \<times> string) list" where
  "build_symptom_dictionaries all_symptoms =
     foldl (\<lambda>d symptom. py_setitem (normalize_symptom_name symptom) symptom d) [] all_symptoms"

text \<open>\<open>_build_symptom_synonyms\<close>: the table of the source, in its order.\<close>

definition build_symptom_synonyms :: "(string \<times> string) list" where
  "build_symptom_synonyms =
     [
      (''fi'' @ [CHR 0xC3, CHR 0xA8] @ ''vre'', ''fever''),
      (''toux'', ''cough''),
      (''mal de t'' @ [CHR 0xC3, CHR 0xAA] @ ''te'', ''headache''),
      (''maux de t'' @ [CHR 0xC3, CHR 0xAA] @ ''te'', ''headache''),
      (''c'' @ [CHR 0xC3, CHR 0xA9] @ ''phal'' @ [CHR 0xC3, CHR 0xA9] @ ''e'', ''headache''),
      (''douleur'', ''pain''),
      (''fatigue'', ''fatigue''),
      (''fatigu'' @ [CHR 0xC3, CHR 0xA9], ''fatigue''),
      (''naus'' @ [CHR 0xC3, CHR 0xA9] @ ''e'', ''nausea''),
      (''naus'' @ [CHR 0xC3, CHR 0xA9] @ ''es'', ''nausea''),
      (''vomissement'', ''vomiting''),
      (''vomissements'', ''vomiting''),
      (''diarrh'' @ [CHR 0xC3, CHR 0xA9] @ ''e'', ''diarrhea''),
      (''diarrhee'', ''diarrhea''),
      (''d'' @ [CHR 0xC3, CHR 0xA9] @ ''shydrat'' @ [CHR 0xC3, CHR 0xA9], ''dehydration''),
      (''deshydrate'', ''dehydration''),
      (''d'' @ [CHR 0xC3, CHR 0xA9] @ ''shydratation'', ''dehydration''),
      (''constipation'', ''constipation''),
      ([CHR 0xC3, CHR 0xA9] @ ''ruption cutan'' @ [CHR 0xC3, CHR 0xA9] @ ''e'', ''skin_rash''),
      (''eruption cutanee'', ''skin_rash''),
      (''d'' @ [CHR 0xC3, CHR 0xA9] @ ''mangeaison'', ''itching''),
      (''demangeaison'', ''itching''),
      (''d'' @ [CHR 0xC3, CHR 0xA9] @ ''mangeaisons'', ''itching''),
      (''essoufflement'', ''breathlessness''),
      (''difficult'' @ [CHR 0xC3, CHR 0xA9] @ '' '' @ [CHR 0xC3, CHR 0xA0] @ '' respirer'', ''breathlessness''),
      (''difficulte a respirer'', ''breathlessness''),
      (''douleur thoracique'', ''chest_pain''),
      (''douleur abdominale'', ''stomach_pain''),
      (''mal de ventre'', ''stomach_pain''),
      (''mal au ventre'', ''stomach_pain''),
      (''vertige'', ''dizziness''),
      (''vertiges'', ''dizziness''),
      (''voyage'', ''travel''),
      (''headaches'', ''headache''),
      (''coughing'', ''cough''),
      (''painful'', ''pain''),
      (''stomach ache'', ''stomach_pain''),
      (''belly pain'', ''stomach_pain''),
      (''chest pain'', ''chest_pain''),
      (''skin rash'', ''skin_rash''),
      (''difficulty breathing'', ''breathlessness''),
      (''shortness of breath'', ''breathlessness''),
      (''dehydrated'', ''dehydration''),
      (''diarrhea'', ''diarrhoea'')]"

text \<open>\<open>detect_language\<close>\<close>

definition french_words :: "string set" where
  "french_words = {''je'', ''tu'', ''il'', ''elle'', ''nous'', ''vous'', ''ils'', ''elles'',
     ''le'', ''la'', ''les'', ''de'', ''du'', ''des'', ''un'', ''une'',
     ''ai'', ''as'', ''avons'', ''suis'', ''est'', ''sont''}"

definition detect_language :: "string \<Rightarrow> string" where
  "detect_language txt =
     (let words = set (py_split (py_lower txt));
          french_count = card (words \<inter> french_words)
      in if french_count \<ge> 2 then ''fr'' else ''en'')"

subsection \<open>Candidates\<close>

text \<open>
  Method 1 of \<open>extract_symptoms\<close> (and the first loop of \<open>_fallback_extraction\<close>): the
  items of \<open>symptoms_dict\<close> whose key or lowercased value occurs in the lowercased
  text, with the confidence and method name of the mode.
\<close>

definition known_symptom_matches ::
  "extractor \<Rightarrow> string \<Rightarrow> rat \<Rightarrow> string \<Rightarrow> extraction list" where
  "known_symptom_matches self txt conf meth =
     [\<lparr> symptom = symptom_value, normalized = symptom_key, confidence = conf,
         extraction_method = meth \<rparr>.
        (symptom_key, symptom_value) \<leftarrow> symptoms_dict self,
        py_in symptom_key (py_lower txt) \<or> py_in (py_lower symptom_value) (py_lower txt)]"

text \<open>
  The guarded append shared by the synonym and the noun-chunk method:
  \<^verbatim>\<open>
  if normalized in self.symptoms_dict:
      extracted_symptoms.append({'symptom': self.symptoms_dict[normalized],
                                 'normalized': normalized, ...})
  \<close>
\<close>

definition known_entry :: "extractor \<Rightarrow> string \<Rightarrow> rat \<Rightarrow> string \<Rightarrow> extraction list" where
  "known_entry self token conf meth =
     (case map_of (symptoms_dict self) token of
        None \<Rightarrow> []
      | Some v \<Rightarrow> [\<lparr> symptom = v, normalized = token, confidence = conf,
                      extraction_method = meth \<rparr>])"

text \<open>Method 2 (and the second loop of the fallback): the synonyms that occur in the text.\<close>

definition synonym_matches ::
  "extractor \<Rightarrow> string \<Rightarrow> rat \<Rightarrow> string \<Rightarrow> extraction list" where
  "synonym_matches self txt conf meth =
     concat [known_entry self (normalize_symptom_name target) conf meth.
        (synonym, target) \<leftarrow> symptom_synonyms self, py_in synonym (py_lower txt)]"

text \<open>Method 3: the noun chunks of the document, lowercased and normalized.\<close>

definition noun_chunk_matches :: "extractor \<Rightarrow> string list \<Rightarrow> extraction list" where
  "noun_chunk_matches self noun_chunks =
     concat [known_entry self (normalize_symptom_name (py_lower chunk)) (7/10) ''noun_chunk''.
        chunk \<leftarrow> noun_chunks]"

text \<open>The list \<open>extracted_symptoms\<close> before duplicates are removed, in full mode.\<close>

definition full_candidates :: "extractor \<Rightarrow> string \<Rightarrow> string list \<Rightarrow> extraction list" where
  "full_candidates self txt noun_chunks =
     known_symptom_matches self txt (9/10) ''exact_match'' @
     synonym_matches self txt (85/100) ''synonym_match'' @
     noun_chunk_matches self noun_chunks"

text \<open>The list \<open>extracted_symptoms\<close> of \<open>_fallback_extraction\<close>.\<close>

definition fallback_candidates :: "extractor \<Rightarrow> string \<Rightarrow> extraction list" where
  "fallback_candidates self txt =
     known_symptom_matches self txt (8/10) ''keyword_match'' @
     synonym_matches self txt (75/100) ''synonym_keyword''"

subsection \<open>Removing duplicates\<close>

text \<open>
  The loop of \<open>extract_symptoms\<close>:
  \<^verbatim>\<open>
  if key not in unique_symptoms or symptom['confidence'] > unique_symptoms[key]['confidence']:
      unique_symptoms[key] = symptom
  \<close>
\<close>

definition keep_highest ::
  "(string \<times> extraction) list \<Rightarrow> extraction \<Rightarrow> (string \<times> extraction) list" where
  "keep_highest unique_symptoms s =
     (case map_of unique_symptoms (normalized s) of
        None \<Rightarrow> py_setitem (normalized s) s unique_symptoms
      | Some old \<Rightarrow>
          if confidence s > confidence old then py_setitem (normalized s) s unique_symptoms
          else unique_symptoms)"

text \<open>
  The loop of \<open>_fallback_extraction\<close>:
  \<^verbatim>\<open>
  if key not in unique_symptoms:
      unique_symptoms[key] = symptom
  \<close>
\<close>

definition keep_first ::
  "(string \<times> extraction) list \<Rightarrow> extraction \<Rightarrow> (string \<times> extraction) list" where
  "keep_first unique_symptoms s =
     (case map_of unique_symptoms (normalized s) of
        None \<Rightarrow> py_setitem (normalized s) s unique_symptoms
      | Some old \<Rightarrow> unique_symptoms)"

subsection \<open>Extraction\<close>

text \<open>\<open>_fallback_extraction\<close>: \<open>list(unique_symptoms.values())\<close>, not sorted.\<close>

definition fallback_extraction :: "extractor \<Rightarrow> string \<Rightarrow> extraction list" where
  "fallback_extraction self txt =
     map snd (foldl keep_first [] (fallback_candidates self txt))"

text \<open>The language \<open>extract_symptoms\<close> works with, and the pipeline it selects.\<close>

definition selected_nlp ::
  "extractor \<Rightarrow> string \<Rightarrow> string option \<Rightarrow> (string \<Rightarrow> string list) option" where
  "selected_nlp self txt language =
     (let lang = (case language of None \<Rightarrow> detect_language txt | Some l \<Rightarrow> l)
      in if lang = ''fr'' then nlp_fr self else nlp_en self)"

text \<open>
  \<open>extract_symptoms\<close>: the fallback when the pipeline of the language is missing;
  otherwise the three methods, the removal of duplicates and
  \<open>result.sort(key=lambda x: x['confidence'], reverse=True)\<close>.
\<close>

definition extract_symptoms :: "extractor \<Rightarrow> string \<Rightarrow> string option \<Rightarrow> extraction list" where
  "extract_symptoms self txt language =
     (case selected_nlp self txt language of
        None \<Rightarrow> fallback_extraction self txt
      | Some nlp \<Rightarrow>
          let doc = nlp (py_lower txt);
              extracted_symptoms = full_candidates self txt doc;
              unique_symptoms = foldl keep_highest [] extracted_symptoms;
              result = map snd unique_symptoms
          in py_sort_reverse confidence result)"

text \<open>
  The candidates that \<open>extract_symptoms\<close> removes duplicates from, in the mode it
  selects.
\<close>

definition extraction_candidates ::
  "extractor \<Rightarrow> string \<Rightarrow> string option \<Rightarrow> extraction list" where
  "extraction_candidates self txt language =
     (case selected_nlp self txt language of
        None \<Rightarrow> fallback_candidates self txt
      | Some nlp \<Rightarrow> full_candidates self txt (nlp (py_lower txt)))"

text \<open>The distinct elements of a list in the order of their first occurrence.\<close>

definition first_seen :: "'a list \<Rightarrow> 'a list" where
  "first_seen xs = rev (remdups (rev xs))"

text \<open>
  An extractor for the examples: four symptoms, the synonym table of the source, no
  French pipeline, and an English pipeline that yields the words of the text as noun
  chunks.
\<close>

definition example_extractor :: extractor where
  "example_extractor =
     \<lparr> symptoms_dict = build_symptom_dictionaries
         [''skin_rash'', ''itching'', ''headache'', ''stomach_pain''],
       symptom_synonyms = build_symptom_synonyms,
       nlp_fr = None,
       nlp_en = Some py_split \<rparr>"

text \<open>
  What both loops keep true of the dictionary \<open>unique_symptoms\<close> after the candidates
  \<open>cs\<close>: its keys are the tokens of \<open>cs\<close> in the order of their first occurrence, and
  the entry of a token is a candidate with that token of the highest confidence.
\<close>

definition unique_inv :: "extraction list \<Rightarrow> (string \<times> extraction) list \<Rightarrow> bool" where
  "unique_inv cs u \<longleftrightarrow>
     map fst u = first_seen (map normalized cs) \<and>
     (\<forall>k s. map_of u k = Some s \<longrightarrow>
        normalized s = k \<and> s \<in> set cs \<and>
        (\<forall>y \<in> set cs. normalized y = k \<longrightarrow> confidence y \<le> confidence s))"

section \<open>Response generation (llm\_engine.py)\<close>

subsection \<open>String formatting\<close>

definition py_upper_char :: "char \<Rightarrow> char" where
  "py_upper_char c =
     (let n = (of_char c :: nat) in if 97 \<le> n \<and> n \<le> 122 then char_of (n - 32) else c)"

definition py_upper :: "string \<Rightarrow> string" where
  "py_upper s = map py_upper_char s"

text \<open>\<open>sep.join(xs)\<close>\<close>

fun py_join :: "string \<Rightarrow> string list \<Rightarrow> string" where
  "py_join sep [] = []"
| "py_join sep [x] = x"
| "py_join sep (x # y # ys) = x @ sep @ py_join sep (y # ys)"

text \<open>The decimal digits of a natural number, as \<open>str(n)\<close> writes them.\<close>

definition digit_char :: "nat \<Rightarrow> char" where
  "digit_char d = char_of (48 + d)"

function decimal :: "nat \<Rightarrow> string" where
  "decimal n = (if n < 10 then [digit_char n] else decimal (n div 10) @ [digit_char (n mod 10)])"
  by pat_completeness auto
termination
  by (relation "measure id") auto

text \<open>
  \<open>f"{x:.kf}"\<close>: \<open>x\<close> in fixed-point notation with \<open>k\<close> digits after the point, rounded
  half to even. The number is the exact rational that models the float.
\<close>

definition round_half_even :: "rat \<Rightarrow> int" where
  "round_half_even q =
     (let f = \<lfloor>q\<rfloor>; r = q - of_int f
      in if r < 1/2 then f else if 1/2 < r then f + 1 else if even f then f else f + 1)"

definition format_fixed :: "nat \<Rightarrow> rat \<Rightarrow> string" where
  "format_fixed k q =
     (let n = nat (round_half_even (\<bar>q\<bar> * 10 ^ k));
          whole = decimal (n div 10 ^ k);
          digits = decimal (n mod 10 ^ k);
          fraction = replicate (k - length digits) (CHR ''0'') @ digits
      in (if q < 0 then ''-'' else '''') @ whole @ (if k = 0 then '''' else ''.'' @ fraction))"

subsection \<open>The engine and its prompt\<close>

text \<open>
  \<open>MedBotRAG\<close>. \<open>self.llm\<close> is \<open>None\<close> when the client could not be built; otherwise
  it is the text-generation collaborator, whose \<open>invoke(prompt)\<close> returns a response
  or raises.
\<close>

datatype llm_error = LLMError string

record med_bot_rag =
  llm :: "(string \<Rightarrow> llm_error + string) option"
  language :: string
  conversation_history :: "string list"

text \<open>\<open>language or self.language\<close>: the argument when it is a non-empty string.\<close>

definition language_or :: "string option \<Rightarrow> string \<Rightarrow> string" where
  "language_or lang dflt = (case lang of None \<Rightarrow> dflt | Some l \<Rightarrow> if l = [] then dflt else l)"

text \<open>\<open>_get_system_prompt\<close>\<close>

definition get_system_prompt :: "string \<Rightarrow> string" where
  "get_system_prompt lang =
     (if lang = ''fr'' then
       (''Tu es MedBot, un assistant m'' @ [CHR 0xC3, CHR 0xA9] @
        ''dical intelligent et empathique '' @ ''bas'' @ [CHR 0xC3, CHR 0xA9] @
        '' sur une ontologie m'' @ [CHR 0xC3, CHR 0xA9] @ ''dicale.'' @ [CHR 0x0A, CHR 0x0A] @
        ''Ton r'' @ [CHR 0xC3, CHR 0xB4] @ ''le:'' @ [CHR 0x0A] @ ''- Analyser les sympt'' @
        [CHR 0xC3, CHR 0xB4] @ ''mes '' @ ''du patient avec bienveillance'' @ [CHR 0x0A] @
        ''- Fournir des informations m'' @ [CHR 0xC3, CHR 0xA9] @ ''dicales '' @ ''pr'' @
        [CHR 0xC3, CHR 0xA9] @ ''liminaires bas'' @ [CHR 0xC3, CHR 0xA9] @
        ''es sur le graphe de connaissances'' @ [CHR 0x0A] @ ''- Recommander '' @ ''la sp'' @
        [CHR 0xC3, CHR 0xA9] @ ''cialit'' @ [CHR 0xC3, CHR 0xA9] @ '' m'' @
        [CHR 0xC3, CHR 0xA9] @ ''dicale appropri'' @ [CHR 0xC3, CHR 0xA9] @ ''e'' @
        [CHR 0x0A] @ ''- Toujours encourager la consultation '' @ ''d'' @ [CHR 0x27] @
        ''un professionnel de sant'' @ [CHR 0xC3, CHR 0xA9, CHR 0x0A, CHR 0x0A] @
        ''IMPORTANT:'' @ [CHR 0x0A] @ ''- Tu n'' @ [CHR 0x27] @ ''es PAS un m'' @
        [CHR 0xC3, CHR 0xA9] @ ''decin, '' @ ''tu es un assistant d'' @ [CHR 0x27] @
        ''orientation'' @ [CHR 0x0A] @ ''- Tes recommandations sont '' @ ''bas'' @
        [CHR 0xC3, CHR 0xA9] @ ''es sur des donn'' @ [CHR 0xC3, CHR 0xA9] @ ''es structur'' @
        [CHR 0xC3, CHR 0xA9] @ ''es, pas un diagnostic m'' @ [CHR 0xC3, CHR 0xA9] @
        ''dical'' @ [CHR 0x0A] @ ''- '' @ ''En cas d'' @ [CHR 0x27] @
        ''urgence (douleur thoracique, difficult'' @ [CHR 0xC3, CHR 0xA9] @
        '' respiratoire '' @ ''s'' @ [CHR 0xC3, CHR 0xA9] @ ''v'' @ [CHR 0xC3, CHR 0xA8] @
        ''re), recommande une consultation imm'' @ [CHR 0xC3, CHR 0xA9] @ ''diate'' @
        [CHR 0x0A, CHR 0x0A] @ ''Structure ta '' @ ''r'' @ [CHR 0xC3, CHR 0xA9] @
        ''ponse ainsi:'' @ [CHR 0x0A] @ ''1. Reconnaissance empathique des sympt'' @
        [CHR 0xC3, CHR 0xB4] @ ''mes'' @ [CHR 0x0A] @ ''2. '' @ ''Analyse bas'' @
        [CHR 0xC3, CHR 0xA9] @ ''e sur les donn'' @ [CHR 0xC3, CHR 0xA9] @
        ''es disponibles'' @ [CHR 0x0A] @ ''3. Recommandation '' @ ''de sp'' @
        [CHR 0xC3, CHR 0xA9] @ ''cialit'' @ [CHR 0xC3, CHR 0xA9] @ '' et d'' @
        [CHR 0xC3, CHR 0xA9] @ ''partement'' @ [CHR 0x0A] @ ''4. Niveau d'' @ [CHR 0x27] @
        ''urgence'' @ [CHR 0x0A] @ ''5. Pr'' @ [CHR 0xC3, CHR 0xA9] @ ''cautions/conseils'' @
        [CHR 0x0A] @ ''6. '' @ ''Encouragement '' @ [CHR 0xC3, CHR 0xA0] @
        '' consulter un professionnel'')
      else
       (''You are MedBot, an intelligent and empathetic medical assistant '' @
        ''based on a medical ontology.'' @ [CHR 0x0A, CHR 0x0A] @ ''Your role:'' @
        [CHR 0x0A] @ ''- Analyze patient symptoms '' @ ''with compassion'' @ [CHR 0x0A] @
        ''- Provide preliminary medical information based '' @ ''on the knowledge graph'' @
        [CHR 0x0A] @ ''- Recommend the appropriate medical specialty'' @ [CHR 0x0A] @ ''- '' @
        ''Always encourage consultation with a healthcare professional'' @
        [CHR 0x0A, CHR 0x0A] @ ''IMPORTANT:'' @ [CHR 0x0A] @ ''- '' @
        ''You are NOT a doctor, you are a guidance assistant'' @ [CHR 0x0A] @
        ''- Your recommendations '' @
        ''are based on structured data, not a medical diagnosis'' @ [CHR 0x0A] @
        ''- In case '' @
        ''of emergency (chest pain, severe breathing difficulty), recommend '' @
        ''immediate consultation'' @ [CHR 0x0A, CHR 0x0A] @ ''Structure your response:'' @
        [CHR 0x0A] @ ''1. Empathetic '' @ ''acknowledgment of symptoms'' @ [CHR 0x0A] @
        ''2. Analysis based on available data'' @ [CHR 0x0A] @ ''3. '' @
        ''Specialty and department recommendation'' @ [CHR 0x0A] @ ''4. Urgency level'' @
        [CHR 0x0A] @ ''5. '' @ ''Precautions/advice'' @ [CHR 0x0A] @
        ''6. Encouragement to consult a professional''))"

text \<open>
  \<open>'specialty' in disease and disease['specialty']\<close> with \<open>isinstance(spec, dict)\<close>: the
  specialty dictionary when the key is present and the dictionary is not empty.
\<close>

definition specialty_of :: "disease \<Rightarrow> specialty_info option" where
  "specialty_of d =
     (case specialty d of
        None \<Rightarrow> None
      | Some spec \<Rightarrow>
          if spec_specialty spec = None \<and> spec_department spec = None \<and> spec_location spec = None
          then None else Some spec)"

text \<open>
  \<open>'precautions' in disease and disease['precautions']\<close>, then \<open>[:3]\<close>: the first three
  precautions, and the empty list when the key is absent or the list is empty.
\<close>

definition precautions_of :: "disease \<Rightarrow> string list" where
  "precautions_of d = (case precautions d of None \<Rightarrow> [] | Some ps \<Rightarrow> take 3 ps)"

text \<open>\<open>d.get(key, dflt)\<close>\<close>

definition get_or :: "'a option \<Rightarrow> 'a \<Rightarrow> 'a" where
  "get_or v dflt = (case v of None \<Rightarrow> dflt | Some x \<Rightarrow> x)"

text \<open>\<open>format_context\<close>: the block of one disease, numbered from 1.\<close>

definition context_entry :: "nat \<Rightarrow> disease \<Rightarrow> string" where
  "context_entry i d =
     ([CHR 0x0A] @ ''Maladie #'') @ decimal i @ '': '' @ name d @
     ([CHR 0x0A] @ ''- Score de correspondance: '') @
     format_fixed 1 (get_or (match_percentage d) 0) @
     (''%'' @ [CHR 0x0A] @ ''- Sympt'' @ [CHR 0xC3, CHR 0xB4] @ ''mes associ'' @
      [CHR 0xC3, CHR 0xA9] @ ''s: '') @
     py_join '', '' (take 5 (get_or (symptoms d) [])) @
     ([CHR 0x0A] @ ''- Sympt'' @ [CHR 0xC3, CHR 0xB4] @ ''mes concordants: '') @
     py_join '', '' (get_or (matched_symptoms d) []) @
     ([CHR 0x0A] @ ''- Niveau d'' @ [CHR 0x27] @ ''urgence: '') @ get_or (urgency d) ''moyen'' @ [CHR 0x0A] @
     (case specialty_of d of
        None \<Rightarrow> ''''
      | Some spec \<Rightarrow>
          (''- Sp'' @ [CHR 0xC3, CHR 0xA9] @ ''cialit'' @ [CHR 0xC3, CHR 0xA9] @
           '' recommand'' @ [CHR 0xC3, CHR 0xA9] @ ''e: '') @ get_or (spec_specialty spec) ''N/A'' @ [CHR 0x0A] @
          (''- D'' @ [CHR 0xC3, CHR 0xA9] @ ''partement: '') @ get_or (spec_department spec) ''N/A'' @ [CHR 0x0A] @
          ''- Localisation: '' @ get_or (spec_location spec) ''N/A'' @ [CHR 0x0A]) @
     (if precautions_of d = [] then ''''
      else (''- Pr'' @ [CHR 0xC3, CHR 0xA9] @ ''cautions: '') @ py_join '', '' (precautions_of d) @ [CHR 0x0A])"

definition format_context :: "disease list \<Rightarrow> string" where
  "format_context query_results =
     (if query_results = [] then
        (''Aucune maladie correspondante trouv'' @ [CHR 0xC3, CHR 0xA9] @
         ''e dans notre base de donn'' @ [CHR 0xC3, CHR 0xA9] @ ''es.'')
      else py_join [CHR 0x0A]
        (map (\<lambda>(i, d). context_entry i d) (zip [1 ..< 4] (take 3 query_results))))"

text \<open>
  The history lines of \<open>generate_response\<close>, over the last six messages:
  \<open>f"{'Patient' if i % 2 == 0 else 'MedBot'}: {msg}"\<close>.
\<close>

definition format_history :: "string list \<Rightarrow> string" where
  "format_history history =
     (let recent = drop (length history - 6) history
      in py_join [CHR 0x0A]
           (map (\<lambda>(i, msg). (if i mod 2 = 0 then ''Patient'' else ''MedBot'') @ '': '' @ msg)
              (zip [0 ..< length recent] recent)))"

text \<open>The prompt \<open>generate_response\<close> sends to the collaborator.\<close>

definition full_prompt :: "med_bot_rag \<Rightarrow> string \<Rightarrow> disease list \<Rightarrow> string \<Rightarrow> string" where
  "full_prompt self user_input query_results lang =
     (let context = format_context query_results;
          history = format_history (conversation_history self);
          system_prompt = get_system_prompt lang
      in if lang = ''fr'' then
           system_prompt @ ([CHR 0x0A, CHR 0x0A] @ ''Contexte du Graphe de Connaissances:'' @ [CHR 0x0A]) @ context @
           ([CHR 0x0A, CHR 0x0A] @ ''Historique de conversation:'' @ [CHR 0x0A]) @ history @
           ([CHR 0x0A, CHR 0x0A] @ ''Patient: '') @ user_input @ ([CHR 0x0A, CHR 0x0A] @ ''Assistant MedBot:'')
         else
           system_prompt @ ([CHR 0x0A, CHR 0x0A] @ ''Knowledge Graph Context:'' @ [CHR 0x0A]) @ context @
           ([CHR 0x0A, CHR 0x0A] @ ''Conversation History:'' @ [CHR 0x0A]) @ history @
           ([CHR 0x0A, CHR 0x0A] @ ''Patient: '') @ user_input @ ([CHR 0x0A, CHR 0x0A] @ ''MedBot Assistant:''))"

subsection \<open>The templated response\<close>

text \<open>The parts of \<open>_fallback_response\<close> for a top disease, in the order it appends them.\<close>

definition fallback_header :: "string \<Rightarrow> disease \<Rightarrow> string" where
  "fallback_header lang top_disease =
     (if lang = ''fr'' then
        (''Bas'' @ [CHR 0xC3, CHR 0xA9] @ '' sur vos sympt'' @ [CHR 0xC3, CHR 0xB4] @
         ''mes, voici mon analyse :'' @
         [CHR 0x0A, CHR 0x0A, CHR 0xF0, CHR 0x9F, CHR 0x94, CHR 0x8D] @
         '' **Condition possible**: '') @
        name top_disease @ ([CHR 0x0A] @ ''   - Correspondance: '') @
        format_fixed 0 (get_or (match_percentage top_disease) 0) @ (''%'' @ [CHR 0x0A] @ ''   - Urgence: '') @
        py_upper (get_or (urgency top_disease) ''moyenne'') @
        ([CHR 0x0A, CHR 0x0A, CHR 0xF0, CHR 0x9F, CHR 0x92, CHR 0x8A] @
         '' **Recommandation**:'' @ [CHR 0x0A])
      else
        (''Based on your symptoms, here'' @ [CHR 0x27] @ ''s my analysis:'' @
         [CHR 0x0A, CHR 0x0A, CHR 0xF0, CHR 0x9F, CHR 0x94, CHR 0x8D] @
         '' **Possible Condition**: '') @
        name top_disease @ ([CHR 0x0A] @ ''   - Match: '') @
        format_fixed 0 (get_or (match_percentage top_disease) 0) @ (''%'' @ [CHR 0x0A] @ ''   - Urgency: '') @
        py_upper (get_or (urgency top_disease) ''medium'') @
        ([CHR 0x0A, CHR 0x0A, CHR 0xF0, CHR 0x9F, CHR 0x92, CHR 0x8A] @
         '' **Recommendation**:'' @ [CHR 0x0A]))"

definition fallback_specialty :: "string \<Rightarrow> disease \<Rightarrow> string" where
  "fallback_specialty lang top_disease =
     (case specialty_of top_disease of
        None \<Rightarrow> ''''
      | Some spec \<Rightarrow>
          if lang = ''fr'' then
            (''   - Sp'' @ [CHR 0xC3, CHR 0xA9] @ ''cialit'' @ [CHR 0xC3, CHR 0xA9] @ '': '') @
            get_or (spec_specialty spec) ((''M'' @ [CHR 0xC3, CHR 0xA9] @ ''decine G'' @ [CHR 0xC3, CHR 0xA9] @ ''n'' @
             [CHR 0xC3, CHR 0xA9] @ ''rale'')) @ [CHR 0x0A] @
            (''   - D'' @ [CHR 0xC3, CHR 0xA9] @ ''partement: '') @
            get_or (spec_department spec) ''Consultations Externes'' @ [CHR 0x0A]
          else
            ''   - Specialty: '' @ get_or (spec_specialty spec) ''General Medicine'' @ [CHR 0x0A] @
            ''   - Department: '' @ get_or (spec_department spec) ''Outpatient Clinic'' @ [CHR 0x0A])"

definition fallback_precautions :: "string \<Rightarrow> disease \<Rightarrow> string" where
  "fallback_precautions lang top_disease =
     (if precautions_of top_disease = [] then ''''
      else (if lang = ''fr'' then ([CHR 0x0A, CHR 0xE2, CHR 0x9A, CHR 0xA0, CHR 0xEF, CHR 0xB8, CHR 0x8F] @
             '' **Pr'' @ [CHR 0xC3, CHR 0xA9] @ ''cautions**:'' @ [CHR 0x0A])
            else ([CHR 0x0A, CHR 0xE2, CHR 0x9A, CHR 0xA0, CHR 0xEF, CHR 0xB8, CHR 0x8F] @
             '' **Precautions**:'' @ [CHR 0x0A])) @
           concat (map (\<lambda>precaution. ''   - '' @ precaution @ [CHR 0x0A])
             (precautions_of top_disease)))"

definition fallback_disclaimer :: "string \<Rightarrow> string" where
  "fallback_disclaimer lang =
     (if lang = ''fr'' then
        ([CHR 0x0A, CHR 0xE2, CHR 0x9A, CHR 0x95, CHR 0xEF, CHR 0xB8, CHR 0x8F] @
         '' **Important**: Cette analyse est indicative. Consultez un '' @
         ''professionnel de sant'' @ [CHR 0xC3, CHR 0xA9] @ '' pour un diagnostic pr'' @
         [CHR 0xC3, CHR 0xA9] @ ''cis.'')
      else
        ([CHR 0x0A, CHR 0xE2, CHR 0x9A, CHR 0x95, CHR 0xEF, CHR 0xB8, CHR 0x8F] @
         '' **Important**: This analysis is indicative. Consult a healthcare '' @
         ''professional for an accurate diagnosis.''))"

text \<open>
  \<open>_fallback_response\<close>: a fixed message when there is no result; otherwise the
  template filled from \<open>query_results[0]\<close>.
\<close>

definition fallback_response :: "disease list \<Rightarrow> string \<Rightarrow> string" where
  "fallback_response query_results lang =
     (case query_results of
        [] \<Rightarrow>
          if lang = ''fr'' then
       (''Je n'' @ [CHR 0x27] @ ''ai pas trouv'' @ [CHR 0xC3, CHR 0xA9] @
        '' de correspondance exacte pour vos sympt'' @ [CHR 0xC3, CHR 0xB4] @ ''mes '' @
        ''dans ma base de donn'' @ [CHR 0xC3, CHR 0xA9] @ ''es.'' @ [CHR 0x0A, CHR 0x0A] @
        ''Je vous recommande de consulter un '' @ ''m'' @ [CHR 0xC3, CHR 0xA9] @ ''decin g'' @
        [CHR 0xC3, CHR 0xA9] @ ''n'' @ [CHR 0xC3, CHR 0xA9] @
        ''raliste qui pourra vous examiner et '' @ [CHR 0xC3, CHR 0xA9] @
        ''tablir un diagnostic '' @ ''appropri'' @ [CHR 0xC3, CHR 0xA9] @ ''.'' @
        [CHR 0x0A, CHR 0x0A] @ ''Si vos sympt'' @ [CHR 0xC3, CHR 0xB4] @ ''mes sont s'' @
        [CHR 0xC3, CHR 0xA9] @ ''v'' @ [CHR 0xC3, CHR 0xA8] @ ''res ou s'' @ [CHR 0x27] @
        ''aggravent, n'' @ [CHR 0x27] @ ''h'' @ [CHR 0xC3, CHR 0xA9] @ ''sitez '' @ ''pas '' @
        [CHR 0xC3, CHR 0xA0] @ '' vous rendre aux urgences.'')
          else
       (''I couldn'' @ [CHR 0x27] @
        ''t find an exact match for your symptoms in my database.'' @ [CHR 0x0A, CHR 0x0A] @
        ''I '' @ ''recommend consulting a general practitioner who can examine '' @
        ''you and make an appropriate diagnosis.'' @ [CHR 0x0A, CHR 0x0A] @
        ''If your symptoms are '' @ ''severe or worsening, don'' @ [CHR 0x27] @
        ''t hesitate to go to the emergency room.'')
      | top_disease # rest \<Rightarrow>
          fallback_header lang top_disease @ fallback_specialty lang top_disease @
          fallback_precautions lang top_disease @ fallback_disclaimer lang)"

subsection \<open>Generating the response\<close>

text \<open>
  \<open>generate_response\<close>, with the engine after the call. Without a collaborator it
  returns the templated response. Otherwise it builds the prompt and, in a \<open>try\<close>,
  invokes the collaborator: on a response it appends the exchange to the history and
  returns the response; \<open>except Exception\<close> logs and returns the templated response.
\<close>

definition generate_response ::
  "med_bot_rag \<Rightarrow> string \<Rightarrow> disease list \<Rightarrow> string option \<Rightarrow> string \<times> med_bot_rag" where
  "generate_response self user_input query_results lang_arg =
     (case llm self of
        None \<Rightarrow> (fallback_response query_results (language_or lang_arg (language self)), self)
      | Some model \<Rightarrow>
          let lang = language_or lang_arg (language self)
          in case model (full_prompt self user_input query_results lang) of
               Inr response \<Rightarrow>
                 (response,
                  self\<lparr>conversation_history :=
                    conversation_history self @ [user_input, response]\<rparr>)
             | Inl e \<Rightarrow> (fallback_response query_results lang, self))"

text \<open>
  For the examples: a ranked and enriched result, and engines without a collaborator and
  with one that always raises.
\<close>

definition fungal_result :: disease where
  "fungal_result =
     \<lparr> uri = ''http://medbot.org/instances#Disease_Fungal_infection'',
       name = ''Fungal infection'', description = '''', urgency = Some ''low'',
       symptoms = Some [''itching'', ''skin_rash'', ''nodal_skin_eruptions''],
       matched_symptoms = Some [''skin_rash'', ''itching''],
       match_score = Some (17/2), match_percentage = Some 85,
       specialty = Some \<lparr> spec_specialty = Some ''Dermatology'',
                           spec_department = Some ''Skin Department'',
                           spec_location = Some ''Building A, 3rd Floor'' \<rparr>,
       precautions = Some [''bath twice'', ''use detol or neem in bathing water'',
                           ''keep infected area dry'', ''use clean cloths''] \<rparr>"

definition offline_engine :: med_bot_rag where
  "offline_engine = \<lparr> llm = None, language = ''fr'', conversation_history = [] \<rparr>"

definition failing_engine :: med_bot_rag where
  "failing_engine =
     \<lparr> llm = Some (\<lambda>prompt. Inl (LLMError ''connection refused'')), language = ''fr'',
       conversation_history = [] \<rparr>"

section \<open>Properties of the string operations\<close>

lemma py_lower_char_idem: "py_lower_char (py_lower_char c) = py_lower_char c"
  by (simp add: py_lower_char_def Let_def)

lemma py_isspace_lower_char: "py_isspace (py_lower_char c) = py_isspace c"
  by (auto simp add: py_lower_char_def py_isspace_def Let_def)

lemma py_lower_idem: "py_lower (py_lower s) = py_lower s"
  by (simp add: py_lower_def py_lower_char_idem)

lemma dropWhile_map_lower:
  "dropWhile py_isspace (map py_lower_char s) = map py_lower_char (dropWhile py_isspace s)"
  by (induction s) (simp_all add: py_isspace_lower_char)

lemma py_strip_lower: "py_strip (py_lower s) = py_lower (py_strip s)"
  by (simp add: py_strip_def py_lower_def dropWhile_map_lower rev_map)

lemma separators_map:
  "separators s = map (\<lambda>c. if c = CHR '' '' \<or> c = CHR ''-'' then CHR ''_'' else c) s"
  by (simp add: separators_def py_replace_char_def)

lemma py_strip_fixed:
  assumes "s = [] \<or> (\<not> py_isspace (hd s) \<and> \<not> py_isspace (last s))"
  shows "py_strip s = s"
proof (cases "s = []")
  case True
  then show ?thesis by (simp add: py_strip_def)
next
  case False
  with assms have h: "\<not> py_isspace (hd s)" and l: "\<not> py_isspace (last s)" by auto
  from h False have fr: "dropWhile py_isspace s = s" by (cases s) auto
  from l False have bk: "dropWhile py_isspace (rev s) = rev s"
    by (cases "rev s") (auto simp: last_rev hd_rev dest!: arg_cong[where f=hd])
  show ?thesis by (simp add: py_strip_def fr bk)
qed

lemma py_strip_ends:
  "py_strip s = [] \<or> (\<not> py_isspace (hd (py_strip s)) \<and> \<not> py_isspace (last (py_strip s)))"
proof (cases "py_strip s = []")
  case True
  then show ?thesis by simp
next
  case False
  define t where "t = dropWhile py_isspace s"
  define u where "u = dropWhile py_isspace (rev t)"
  have ps: "py_strip s = rev u" by (simp add: py_strip_def t_def u_def)
  with False have u: "u \<noteq> []" by simp
  then have t: "t \<noteq> []" by (auto simp: u_def)
  have hu: "\<not> py_isspace (hd u)" using u unfolding u_def by (rule hd_dropWhile)
  have ht: "\<not> py_isspace (hd t)" using t unfolding t_def by (rule hd_dropWhile)
  have lu: "last u = last (rev t)" using u unfolding u_def
    by (metis ht dropWhile_last hd_in_set set_rev t)
  have hr: "hd (rev u) = hd t" using u t lu by (simp add: hd_rev last_rev)
  have lr: "last (rev u) = hd u" using u by (simp add: last_rev)
  show ?thesis using hu ht hr lr ps by simp
qed

lemma separators_idem: "separators (separators s) = separators s"
  by (simp add: separators_map)

lemma py_lower_char_eq_iff:
  assumes "of_char k < (65::nat) \<or> (90::nat) < of_char k"
    and "\<not> (97 \<le> (of_char k::nat) \<and> (of_char k::nat) \<le> 122)"
  shows "py_lower_char c = k \<longleftrightarrow> c = k"
proof
  assume e: "py_lower_char c = k"
  show "c = k"
  proof (cases "65 \<le> (of_char c::nat) \<and> (of_char c::nat) \<le> 90")
    case True
    then have "k = char_of ((of_char c::nat) + 32)"
      using e by (simp add: py_lower_char_def Let_def)
    then have "(of_char k::nat) = of_char c + 32" using True by simp
    with True assms(2) show ?thesis by simp
  next
    case False
    then show ?thesis using e by (auto simp add: py_lower_char_def Let_def)
  qed
next
  assume "c = k"
  then show "py_lower_char c = k"
    using assms(1) by (auto simp add: py_lower_char_def Let_def)
qed

lemma separators_lower: "py_lower (separators s) = separators (py_lower s)"
proof -
  have sp: "py_lower_char c = CHR '' '' \<longleftrightarrow> c = CHR '' ''" for c
    by (rule py_lower_char_eq_iff) simp_all
  have hy: "py_lower_char c = CHR ''-'' \<longleftrightarrow> c = CHR ''-''" for c
    by (rule py_lower_char_eq_iff) simp_all
  have us: "py_lower_char (CHR ''_'') = CHR ''_''" by (simp add: py_lower_char_def)
  show ?thesis by (simp add: separators_map py_lower_def sp hy us)
qed

lemma py_isspace_separator:
  "\<not> py_isspace c \<Longrightarrow>
   \<not> py_isspace (if c = CHR '' '' \<or> c = CHR ''-'' then CHR ''_'' else c)"
  by (simp add: py_isspace_def)

lemma separators_strip_fixed:
  assumes "s = [] \<or> (\<not> py_isspace (hd s) \<and> \<not> py_isspace (last s))"
  shows "py_strip (separators s) = separators s"
proof (rule py_strip_fixed)
  show "separators s = [] \<or>
    (\<not> py_isspace (hd (separators s)) \<and> \<not> py_isspace (last (separators s)))"
  proof (cases "s = []")
    case True
    then show ?thesis by (simp add: separators_map)
  next
    case False
    with assms have "\<not> py_isspace (hd s)" "\<not> py_isspace (last s)" by auto
    then show ?thesis using False
      by (simp add: separators_map hd_map last_map py_isspace_separator)
  qed
qed

lemma normalize_alt: "normalize_symptom_name s = separators (py_strip (py_lower s))"
  by (simp add: normalize_symptom_name_def separators_def)

section \<open>Normalization\<close>

text \<open>
  Claim C6, as the spec states it: normalization collapses internal whitespace, so that a
  run of consecutive internal spaces yields exactly one separator. The code has no
  collapsing step: the two internal spaces of \<open>a  b\<close> become two underscores.
\<close>

theorem normalize_keeps_runs_counterexample:
  "normalize_symptom_name ''a  b'' = ''a__b'' \<and>
   count_list (normalize_symptom_name ''a  b'') (CHR ''_'') = 2"
  by (simp add: normalize_alt separators_map py_strip_def py_lower_def py_lower_char_def
      py_isspace_def)

text \<open>
  Claim C6, amended: normalization lowercases, trims leading and trailing whitespace, and
  replaces every space and every hyphen of the lowercased, trimmed text by one underscore
  each, character by character, in place. Internal whitespace is not collapsed: the result
  has the length of the lowercased, trimmed text, it contains no space and no hyphen, and a
  run of \<open>k\<close> internal spaces yields \<open>k\<close> underscores.
\<close>

theorem normalize_symptom_name_per_character:
  "normalize_symptom_name s =
     map (\<lambda>c. if c = CHR '' '' \<or> c = CHR ''-'' then CHR ''_'' else c) (py_strip (py_lower s)) \<and>
   length (normalize_symptom_name s) = length (py_strip (py_lower s)) \<and>
   CHR '' '' \<notin> set (normalize_symptom_name s) \<and>
   CHR ''-'' \<notin> set (normalize_symptom_name s) \<and>
   normalize_symptom_name (''a'' @ replicate k (CHR '' '') @ ''b'')
     = ''a'' @ replicate k (CHR ''_'') @ ''b''"
proof -
  let ?s = "''a'' @ replicate k (CHR '' '') @ ''b''"
  have l: "py_lower ?s = ?s" by (simp add: py_lower_def py_lower_char_def)
  have "py_strip ?s = ?s" by (rule py_strip_fixed) (simp add: py_isspace_def)
  then have run: "normalize_symptom_name ?s = ''a'' @ replicate k (CHR ''_'') @ ''b''"
    by (simp only: normalize_alt l) (simp add: separators_map)
  have shape: "normalize_symptom_name s =
     map (\<lambda>c. if c = CHR '' '' \<or> c = CHR ''-'' then CHR ''_'' else c) (py_strip (py_lower s))"
    by (simp add: normalize_symptom_name_def py_replace_char_def)
  have len: "length (normalize_symptom_name s) = length (py_strip (py_lower s))"
    by (simp add: shape)
  have nosp: "CHR '' '' \<notin> set (normalize_symptom_name s)"
    by (auto simp add: shape)
  have nohy: "CHR ''-'' \<notin> set (normalize_symptom_name s)"
    by (auto simp add: shape)
  from shape len nosp nohy run show ?thesis by blast
qed

text \<open>
  Claim C7: normalization is idempotent,
  \<open>normalize(normalize(x)) = normalize(x)\<close> for every string \<open>x\<close>.
\<close>

theorem normalize_symptom_name_idempotent:
  "normalize_symptom_name (normalize_symptom_name x) = normalize_symptom_name x"
proof -
  let ?t = "py_strip (py_lower x)"
  have l: "py_lower ?t = ?t" by (simp add: py_strip_lower py_lower_idem)
  have "py_lower (separators ?t) = separators ?t" by (simp add: separators_lower l)
  moreover have "py_strip (separators ?t) = separators ?t"
    by (rule separators_strip_fixed) (rule py_strip_ends)
  ultimately show ?thesis by (simp add: normalize_alt separators_idem)
qed

section \<open>Ranking\<close>

lemma py_sort_reverse_mset: "mset (py_sort_reverse key xs) = mset xs"
  by (simp add: py_sort_reverse_def)

lemma py_sort_reverse_stable:
  "filter (\<lambda>x. key x = k) (py_sort_reverse key xs) = filter (\<lambda>x. key x = k) xs"
  by (simp add: py_sort_reverse_def rev_filter [symmetric] sort_key_stable)

lemma py_sort_reverse_sorted:
  "sorted_wrt (\<lambda>a b. key b \<le> key a) (py_sort_reverse key xs)"
proof -
  have "sorted (map key (sort_key key (rev xs)))" by simp
  then have "sorted_wrt (\<lambda>a b. key a \<le> key b) (sort_key key (rev xs))"
    by (simp add: sorted_map)
  then show ?thesis
    by (simp add: py_sort_reverse_def sorted_wrt_rev)
qed

lemma set_rank_diseases: "set (rank_diseases ds us) = set ds"
  by (metis rank_diseases_def py_sort_reverse_mset set_mset_mset)

text \<open>
  Claim C1: the output of \<open>rank_diseases\<close> is ordered by match score descending, ties
  broken by urgency rank descending (high 3, medium 2, low 1, unknown or missing 2); it
  is a permutation of the input, and the elements that agree on both keys keep their
  input order. The last three conjuncts say what the two keys are: the score is the value
  of the \<open>match_score\<close> key, 0 when the key is absent; the urgency rank is read from
  the \<open>urgency\<close> key, compared in lower case; and the key of the stability conjunct is
  the pair of the two.
\<close>

theorem rank_diseases_sorted_stable:
  "sorted_wrt (\<lambda>a b. score_of b < score_of a \<or>
        (score_of a = score_of b \<and> urgency_score b \<le> urgency_score a))
     (rank_diseases ds us) \<and>
   mset (rank_diseases ds us) = mset ds \<and>
   filter (\<lambda>d. rank_sort_key d = k) (rank_diseases ds us)
     = filter (\<lambda>d. rank_sort_key d = k) ds \<and>
   score_of d = (case match_score d of None \<Rightarrow> 0 | Some s \<Rightarrow> s) \<and>
   urgency_score d =
     (case urgency d of None \<Rightarrow> 2
      | Some u \<Rightarrow> if py_lower u = ''high'' then 3 else if py_lower u = ''low'' then 1 else 2) \<and>
   rank_sort_key d = (score_of d, urgency_score d)"
proof -
  have "sorted_wrt (\<lambda>a b. rank_sort_key b \<le> rank_sort_key a) (rank_diseases ds us)"
    unfolding rank_diseases_def by (rule py_sort_reverse_sorted)
  then have ord: "sorted_wrt (\<lambda>a b. score_of b < score_of a \<or>
        (score_of a = score_of b \<and> urgency_score b \<le> urgency_score a)) (rank_diseases ds us)"
    by (rule sorted_wrt_mono_rel [rotated]) (auto simp add: rank_sort_key_def less_eq_prod_def)
  have perm: "mset (rank_diseases ds us) = mset ds"
    by (simp add: rank_diseases_def py_sort_reverse_mset)
  have stable: "filter (\<lambda>d. rank_sort_key d = k) (rank_diseases ds us)
      = filter (\<lambda>d. rank_sort_key d = k) ds"
    by (simp add: rank_diseases_def py_sort_reverse_stable)
  have table: "urgency_score d =
     (case urgency d of None \<Rightarrow> 2
      | Some u \<Rightarrow> if py_lower u = ''high'' then 3 else if py_lower u = ''low'' then 1 else 2)"
    by (simp add: urgency_score_def urgency_priority_def py_lower_def py_lower_char_def
        split: option.split)
  have score: "score_of d = (case match_score d of None \<Rightarrow> 0 | Some s \<Rightarrow> s)"
    by (simp add: score_of_def)
  have key: "rank_sort_key d = (score_of d, urgency_score d)"
    by (simp add: rank_sort_key_def)
  from ord perm stable score table key show ?thesis by blast
qed

text \<open>
  An example with a score tie: \<open>B\<close> (high) precedes \<open>D\<close> (no urgency, rank 2), which
  precedes \<open>A\<close> and \<open>E\<close> (both low), and \<open>A\<close> stays before \<open>E\<close>.
\<close>

lemma rank_diseases_example:
  "map name (rank_diseases
     [ranked_entry ''A'' 5 (Some ''low''), ranked_entry ''B'' 5 (Some ''HIGH''),
      ranked_entry ''C'' 10 (Some ''low''), ranked_entry ''D'' 5 None,
      ranked_entry ''E'' 5 (Some ''low'')] []) = [''C'', ''B'', ''D'', ''A'', ''E'']"
  by (simp add: rank_diseases_def py_sort_reverse_def rank_sort_key_def score_of_def
      urgency_score_def urgency_priority_def ranked_entry_def py_lower_def py_lower_char_def
      less_eq_prod_def)

section \<open>Match score and recall filter\<close>



lemma query_result_row:
  assumes "r \<in> set (query_diseases_by_symptoms g names)"
  shows "\<exists>row. row \<in> set (disease_solutions g names) \<and> r = disease_result g names row"
proof (cases "select_diseases_by_symptoms g names")
  case (Inl e)
  with assms show ?thesis
    by (simp add: query_diseases_by_symptoms_def split: if_splits)
next
  case (Inr qres)
  with assms have "r \<in> disease_result g names ` set qres"
    by (simp add: query_diseases_by_symptoms_def set_rank_diseases split: if_splits)
  moreover from Inr have "set qres = set (disease_solutions g names)"
    by (auto simp add: select_diseases_by_symptoms_def split: if_splits)
  ultimately show ?thesis by blast
qed

lemma calculate_match_score_bounds:
  "0 \<le> calculate_match_score us ds \<and> calculate_match_score us ds \<le> 10"
  by (simp add: calculate_match_score_def Let_def)

lemma card_inter_le_length: "card (set us \<inter> set ds) \<le> length us"
  by (meson List.finite_set card_length card_mono inf_le1 le_trans)

lemma calculate_match_score_formula:
  assumes "us \<noteq> []" "distinct us"
  shows "calculate_match_score us ds
     = max 0 (min 10 (of_nat (card (set us \<inter> set ds)) / of_nat (card (set us)) * 10))"
proof -
  have len: "card (set us) = length us" using assms(2) by (simp add: distinct_card)
  have pos: "0 < length us" using assms(1) by simp
  have "(of_nat (card (set us \<inter> set ds)) :: rat) \<le> of_nat (length us)"
    using card_inter_le_length [of us ds] by simp
  then have le: "(of_nat (card (set us \<inter> set ds)) :: rat) / of_nat (length us) * 10 \<le> 10"
    using pos by (simp add: divide_le_eq)
  have ge: "0 \<le> (of_nat (card (set us \<inter> set ds)) :: rat) / of_nat (length us) * 10" by simp
  let ?x = "(of_nat (card (set us \<inter> set ds)) :: rat) / of_nat (length us) * 10"
  have clamp: "max 0 (min 10 ?x) = ?x" using le ge by (simp only: min_absorb2 max_absorb2)
  have "calculate_match_score us ds = ?x"
  proof (cases "ds = []")
    case True
    then show ?thesis using assms by (simp add: calculate_match_score_def)
  next
    case False
    have "min ?x 10 = ?x" using le by (simp only: min_absorb1)
    then show ?thesis using False assms(1)
      by (simp only: calculate_match_score_def Let_def) simp
  qed
  then show ?thesis by (simp only: clamp len)
qed

text \<open>
  Claim C2: for a non-empty input token set (a list without repetitions) the match score
  against any symptom list is \<open>(|input \<inter> symptoms| / |input|) * 10\<close> clamped to
  \<open>[0, 10]\<close>; every result of \<open>query_diseases_by_symptoms\<close> carries that score for
  the symptoms of its disease, its \<open>match_percentage\<close> is the score times 10, and
  both lie in their ranges.
\<close>

theorem match_score_formula_and_bounds:
  "(us \<noteq> [] \<longrightarrow> distinct us \<longrightarrow>
      calculate_match_score us ds
        = max 0 (min 10 (of_nat (card (set us \<inter> set ds)) / of_nat (card (set us)) * 10))) \<and>
   (r \<in> set (query_diseases_by_symptoms g us) \<longrightarrow>
      symptoms r = Some (get_disease_symptoms g (uri r)) \<and>
      match_score r = Some (calculate_match_score us (get_disease_symptoms g (uri r))) \<and>
      match_percentage r = Some (score_of r * 10) \<and>
      0 \<le> score_of r \<and> score_of r \<le> 10 \<and>
      0 \<le> score_of r * 10 \<and> score_of r * 10 \<le> 100)"
proof (intro conjI impI)
  assume "us \<noteq> []" "distinct us"
  then show "calculate_match_score us ds
        = max 0 (min 10 (of_nat (card (set us \<inter> set ds)) / of_nat (card (set us)) * 10))"
    by (rule calculate_match_score_formula)
next
  assume m: "r \<in> set (query_diseases_by_symptoms g us)"
  then obtain row where r: "r = disease_result g us row"
    using query_result_row by blast
  obtain a b c d where row: "row = (a, b, c, d)" by (cases row) auto
  let ?s = "calculate_match_score us (get_disease_symptoms g (uri r))"
  show "symptoms r = Some (get_disease_symptoms g (uri r))"
    by (simp add: r row disease_result_def Let_def)
  show ms: "match_score r = Some ?s"
    by (simp add: r row disease_result_def Let_def)
  then have so: "score_of r = ?s" by (simp add: score_of_def)
  show "match_percentage r = Some (score_of r * 10)"
    unfolding so by (simp add: r row disease_result_def Let_def)
  have b: "0 \<le> ?s \<and> ?s \<le> 10" by (rule calculate_match_score_bounds)
  show "0 \<le> score_of r" "score_of r \<le> 10" "0 \<le> score_of r * 10" "score_of r * 10 \<le> 100"
    using b by (simp_all add: so)
qed

lemma flu_result_found:
  "flu_result \<in> set (query_diseases_by_symptoms example_graph [''skin_rash'', ''fever''])"
  by code_simp

text \<open>
  The partial-match scenario: input \<open>{skin_rash, fever}\<close>, a disease whose only symptom
  is \<open>fever\<close>; one of two input tokens matches, score 5, percentage 50.
\<close>

theorem match_score_witness:
  "flu_result \<in> set (query_diseases_by_symptoms example_graph [''skin_rash'', ''fever'']) \<and>
   calculate_match_score [''skin_rash'', ''fever''] [''fever''] = 5 \<and>
   match_percentage flu_result = Some (score_of flu_result * 10) \<and>
   score_of flu_result \<le> 10"
proof -
  note t = match_score_formula_and_bounds
    [of "[''skin_rash'', ''fever'']" "[''fever'']" flu_result example_graph]
  have d: "distinct [''skin_rash'', ''fever'']" "[''skin_rash'', ''fever''] \<noteq> []" by simp_all
  have c: "card (set [''skin_rash'', ''fever''] \<inter> set [''fever'']) = 1" by code_simp
  have c2: "card (set [''skin_rash'', ''fever'']) = 2" by code_simp
  from t d flu_result_found show ?thesis by (simp add: c c2)
qed



section \<open>Detail enrichment\<close>

lemma optional_not_empty: "optional xs \<noteq> []"
  by (simp add: optional_def)








section \<open>Loading the store\<close>

text \<open>
  Claim C3, as the spec states it: a missing or malformed snapshot makes the load fail
  with a fatal error. In the code \<open>_load_graph\<close> catches every exception of the
  parse: for a missing file the constructor returns a store with an empty graph and an
  error in the log, and a symptom query on that store returns the empty list.
\<close>

theorem load_graph_swallows_failure_counterexample:
  "MedicalKnowledgeGraph_init ''data/ontology/medical_ontology.ttl'' Missing =
     Inr (\<lparr> graph = [], ontology_path = ''data/ontology/medical_ontology.ttl'' \<rparr>,
          [Info ''Loading medical ontology'', Error ''Ontology file not found'']) \<and>
   query_diseases_by_symptoms [] [''fever''] = []"
  by (simp add: MedicalKnowledgeGraph_init_def load_graph_def graph_parse_def
      query_diseases_by_symptoms_def select_diseases_by_symptoms_def disease_solutions_def
      rank_diseases_def py_sort_reverse_def)

text \<open>
  Claim C3, amended: for every snapshot the constructor returns a store and never
  raises. For a missing or malformed snapshot it logs an error and the store holds the
  triples read before the failure (none for a missing file); for a Turtle file it holds
  the file's triples and logs no error.
\<close>

theorem load_graph_logs_and_continues:
  "\<exists>kg logs. MedicalKnowledgeGraph_init path snap = Inr (kg, logs) \<and>
     ontology_path kg = path \<and>
     graph kg = (case snap of Missing \<Rightarrow> [] | Malformed ts \<Rightarrow> ts | Turtle ts \<Rightarrow> ts) \<and>
     (case snap of
        Missing \<Rightarrow> Error ''Ontology file not found'' \<in> set logs
      | Malformed ts \<Rightarrow> Error ''Error loading graph'' \<in> set logs
      | Turtle ts \<Rightarrow> logs = [Info ''Loading medical ontology'', Info ''Loaded graph''])"
  by (cases snap)
    (simp_all add: MedicalKnowledgeGraph_init_def load_graph_def graph_parse_def)

theorem load_graph_witness:
  "\<exists>kg logs. MedicalKnowledgeGraph_init ''p'' (Malformed []) = Inr (kg, logs) \<and>
     graph kg = [] \<and> Error ''Error loading graph'' \<in> set logs"
  using load_graph_logs_and_continues [of "''p''" "Malformed []"] by auto

section \<open>Symptom extraction\<close>

lemma first_seen_snoc:
  "first_seen (xs @ [x]) = (if x \<in> set xs then first_seen xs else first_seen xs @ [x])"
  by (simp add: first_seen_def)

lemma set_first_seen: "set (first_seen xs) = set xs"
  by (simp add: first_seen_def)

lemma distinct_first_seen: "distinct (first_seen xs)"
  by (simp add: first_seen_def)

lemma keys_py_setitem:
  "map fst (py_setitem k v d) = (if k \<in> fst ` set d then map fst d else map fst d @ [k])"
  by (simp add: py_setitem_def update_keys)

lemma map_of_py_setitem: "map_of (py_setitem k v d) = (map_of d)(k \<mapsto> v)"
  by (simp add: py_setitem_def update_conv')

lemma py_setitem_absent: "k \<notin> fst ` set d \<Longrightarrow> py_setitem k v d = d @ [(k, v)]"
  by (induction d) (auto simp add: py_setitem_def)

lemma unique_inv_empty: "unique_inv [] []"
  by (simp add: unique_inv_def first_seen_def)

lemma unique_inv_absent:
  assumes "unique_inv cs u" "map_of u (normalized c) = None"
  shows "unique_inv (cs @ [c]) (py_setitem (normalized c) c u)"
proof -
  from assms(2) have nk: "normalized c \<notin> fst ` set u" by (simp add: map_of_eq_None_iff)
  with assms(1) have nc: "normalized c \<notin> normalized ` set cs"
    by (metis unique_inv_def set_first_seen set_map)
  have keys: "map fst (py_setitem (normalized c) c u) = first_seen (map normalized (cs @ [c]))"
    using assms(1) nk nc by (simp add: keys_py_setitem first_seen_snoc unique_inv_def)
  have vals: "normalized s = k \<and> s \<in> set (cs @ [c]) \<and>
        (\<forall>y \<in> set (cs @ [c]). normalized y = k \<longrightarrow> confidence y \<le> confidence s)"
    if "map_of (py_setitem (normalized c) c u) k = Some s" for k s
  proof (cases "k = normalized c")
    case True
    with that have sc: "s = c" by (simp add: map_of_py_setitem)
    from nc have "\<forall>y \<in> set cs. normalized y \<noteq> normalized c" by (auto simp add: image_iff)
    with True sc show ?thesis by auto
  next
    case False
    with that have "map_of u k = Some s" by (simp add: map_of_py_setitem)
    with assms(1) False show ?thesis by (auto simp add: unique_inv_def)
  qed
  from keys vals show ?thesis unfolding unique_inv_def by blast
qed

lemma unique_inv_replace:
  assumes "unique_inv cs u" "map_of u (normalized c) = Some old" "confidence old < confidence c"
  shows "unique_inv (cs @ [c]) (py_setitem (normalized c) c u)"
proof -
  from assms(2) have ik: "normalized c \<in> fst ` set u"
    by (metis map_of_eq_None_iff option.distinct(1))
  with assms(1) have ic: "normalized c \<in> normalized ` set cs"
    by (metis unique_inv_def set_first_seen set_map)
  have keys: "map fst (py_setitem (normalized c) c u) = first_seen (map normalized (cs @ [c]))"
    using assms(1) ik ic by (simp add: keys_py_setitem first_seen_snoc unique_inv_def)
  from assms(1,2) have old: "\<forall>y \<in> set cs. normalized y = normalized c \<longrightarrow>
      confidence y \<le> confidence old"
    by (simp add: unique_inv_def)
  have vals: "normalized s = k \<and> s \<in> set (cs @ [c]) \<and>
        (\<forall>y \<in> set (cs @ [c]). normalized y = k \<longrightarrow> confidence y \<le> confidence s)"
    if "map_of (py_setitem (normalized c) c u) k = Some s" for k s
  proof (cases "k = normalized c")
    case True
    with that have "s = c" by (simp add: map_of_py_setitem)
    with True old assms(3) show ?thesis by fastforce
  next
    case False
    with that have "map_of u k = Some s" by (simp add: map_of_py_setitem)
    with assms(1) False show ?thesis by (auto simp add: unique_inv_def)
  qed
  from keys vals show ?thesis unfolding unique_inv_def by blast
qed

lemma unique_inv_keep:
  assumes "unique_inv cs u" "map_of u (normalized c) = Some old" "confidence c \<le> confidence old"
  shows "unique_inv (cs @ [c]) u"
proof -
  from assms(2) have ik: "normalized c \<in> fst ` set u"
    by (metis map_of_eq_None_iff option.distinct(1))
  with assms(1) have ic: "normalized c \<in> normalized ` set cs"
    by (metis unique_inv_def set_first_seen set_map)
  have keys: "map fst u = first_seen (map normalized (cs @ [c]))"
    using assms(1) ic by (simp add: first_seen_snoc unique_inv_def)
  have vals: "normalized s = k \<and> s \<in> set (cs @ [c]) \<and>
        (\<forall>y \<in> set (cs @ [c]). normalized y = k \<longrightarrow> confidence y \<le> confidence s)"
    if m: "map_of u k = Some s" for k s
  proof (cases "k = normalized c")
    case True
    with m assms(2) have "s = old" by simp
    with True m assms(1,3) show ?thesis by (auto simp add: unique_inv_def)
  next
    case False
    with m assms(1) show ?thesis by (auto simp add: unique_inv_def)
  qed
  from keys vals show ?thesis unfolding unique_inv_def by blast
qed

lemma keep_highest_absent:
  "map_of u (normalized c) = None \<Longrightarrow> keep_highest u c = py_setitem (normalized c) c u"
  by (simp add: keep_highest_def)

lemma keep_highest_replace:
  "map_of u (normalized c) = Some old \<Longrightarrow> confidence old < confidence c \<Longrightarrow>
   keep_highest u c = py_setitem (normalized c) c u"
  by (simp add: keep_highest_def)

lemma keep_highest_keep:
  "map_of u (normalized c) = Some old \<Longrightarrow> \<not> confidence old < confidence c \<Longrightarrow>
   keep_highest u c = u"
  by (simp add: keep_highest_def)

lemma keep_first_absent:
  "map_of u (normalized c) = None \<Longrightarrow> keep_first u c = py_setitem (normalized c) c u"
  by (simp add: keep_first_def)

lemma keep_first_keep:
  "map_of u (normalized c) = Some old \<Longrightarrow> keep_first u c = u"
  by (simp add: keep_first_def)

lemma keep_highest_inv: "unique_inv cs (foldl keep_highest [] cs)"
proof (induction cs rule: rev_induct)
  case Nil
  show ?case by (simp add: unique_inv_empty)
next
  case (snoc c cs)
  let ?u = "foldl keep_highest [] cs"
  show ?case
  proof (cases "map_of ?u (normalized c)")
    case None
    with snoc show ?thesis by (simp add: keep_highest_absent unique_inv_absent)
  next
    case (Some old)
    show ?thesis
    proof (cases "confidence old < confidence c")
      case True
      with Some snoc show ?thesis
        by (simp add: keep_highest_replace [OF Some] unique_inv_replace [OF _ Some])
    next
      case False
      then have "confidence c \<le> confidence old" by simp
      with Some snoc False show ?thesis
        by (simp add: keep_highest_keep [OF Some] unique_inv_keep [OF _ Some])
    qed
  qed
qed

lemma unique_inv_values:
  assumes "unique_inv cs u" "x \<in> set (map snd u)"
  shows "x \<in> set cs \<and> (\<forall>y \<in> set cs. normalized y = normalized x \<longrightarrow> confidence y \<le> confidence x)"
proof -
  from assms(1) have d: "distinct (map fst u)" by (simp add: unique_inv_def distinct_first_seen)
  from assms(2) obtain k where "(k, x) \<in> set u" by auto
  with d have "map_of u k = Some x" by simp
  with assms(1) show ?thesis unfolding unique_inv_def by blast
qed

lemma unique_inv_tokens:
  assumes "unique_inv cs u"
  shows "map normalized (map snd u) = first_seen (map normalized cs)"
proof -
  from assms have d: "distinct (map fst u)" by (simp add: unique_inv_def distinct_first_seen)
  have "normalized (snd p) = fst p" if "p \<in> set u" for p
  proof -
    from that d have "map_of u (fst p) = Some (snd p)" by simp
    with assms show ?thesis unfolding unique_inv_def by blast
  qed
  then have "map normalized (map snd u) = map fst u" by simp
  with assms show ?thesis by (simp add: unique_inv_def)
qed

lemma keep_first_inv:
  assumes "sorted_wrt (\<lambda>a b. confidence b \<le> confidence a) cs"
  shows "unique_inv cs (foldl keep_first [] cs) \<and>
         sorted_wrt (\<lambda>a b. confidence b \<le> confidence a) (map snd (foldl keep_first [] cs))"
  using assms
proof (induction cs rule: rev_induct)
  case Nil
  show ?case by (simp add: unique_inv_empty)
next
  case (snoc c cs)
  let ?u = "foldl keep_first [] cs"
  from snoc.prems have pre: "sorted_wrt (\<lambda>a b. confidence b \<le> confidence a) cs"
    and last: "\<forall>x \<in> set cs. confidence c \<le> confidence x"
    by (simp_all add: sorted_wrt_append)
  from snoc.IH [OF pre] have inv: "unique_inv cs ?u"
    and srt: "sorted_wrt (\<lambda>a b. confidence b \<le> confidence a) (map snd ?u)" by simp_all
  show ?case
  proof (cases "map_of ?u (normalized c)")
    case None
    then have nk: "normalized c \<notin> fst ` set ?u" by (simp add: map_of_eq_None_iff)
    have "\<forall>x \<in> set (map snd ?u). confidence c \<le> confidence x"
      using unique_inv_values [OF inv] last by blast
    with srt nk have "sorted_wrt (\<lambda>a b. confidence b \<le> confidence a)
        (map snd (py_setitem (normalized c) c ?u))"
      by (simp add: py_setitem_absent sorted_wrt_append)
    with None inv show ?thesis by (simp add: keep_first_absent unique_inv_absent)
  next
    case (Some old)
    with inv have "old \<in> set cs" by (simp add: unique_inv_def)
    with last have "confidence c \<le> confidence old" by simp
    with Some inv srt show ?thesis
      by (simp add: keep_first_keep [OF Some] unique_inv_keep [OF _ Some])
  qed
qed


lemma filter_tokens:
  assumes "distinct (map f xs)"
  shows "map f (filter P xs) = filter (\<lambda>t. \<exists>x \<in> set xs. f x = t \<and> P x) (map f xs)"
proof -
  from assms have inj: "inj_on f (set xs)" by (simp add: distinct_map)
  have "(\<exists>y \<in> set xs. f y = f x \<and> P y) = P x" if "x \<in> set xs" for x
    using that inj by (auto dest: inj_onD)
  then have "filter (\<lambda>x. \<exists>y \<in> set xs. f y = f x \<and> P y) xs = filter P xs"
    by (intro filter_cong) auto
  then show ?thesis by (simp add: filter_map comp_def)
qed

lemma deduplicated_properties:
  assumes inv: "unique_inv cs u"
    and perm: "mset r = mset (map snd u)"
    and srt: "sorted_wrt (\<lambda>a b. confidence b \<le> confidence a) r"
    and stab: "\<And>k. filter (\<lambda>x. confidence x = k) r = filter (\<lambda>x. confidence x = k) (map snd u)"
  shows "distinct (map normalized r) \<and>
     set (map normalized r) = set (map normalized cs) \<and>
     (\<forall>x \<in> set r. x \<in> set cs \<and>
        (\<forall>y \<in> set cs. normalized y = normalized x \<longrightarrow> confidence y \<le> confidence x)) \<and>
     sorted_wrt (\<lambda>a b. confidence b \<le> confidence a) r \<and>
     (\<forall>k. map normalized (filter (\<lambda>x. confidence x = k) r) =
        filter (\<lambda>t. \<exists>x \<in> set r. normalized x = t \<and> confidence x = k)
          (first_seen (map normalized cs)))"
proof -
  let ?r0 = "map snd u"
  have tok: "map normalized ?r0 = first_seen (map normalized cs)"
    using inv by (rule unique_inv_tokens)
  then have d0: "distinct (map normalized ?r0)" by (simp only: distinct_first_seen)
  from perm have pm: "mset (map normalized r) = mset (map normalized ?r0)" by (metis mset_map)
  from perm have sr: "set r = set ?r0" by (rule mset_eq_setD)
  have p1: "distinct (map normalized r)"
    using pm d0 by (metis mset_eq_imp_distinct_iff)
  have p2: "set (map normalized r) = set (map normalized cs)"
    using pm tok by (metis mset_eq_setD set_first_seen)
  have p3: "\<forall>x \<in> set r. x \<in> set cs \<and>
        (\<forall>y \<in> set cs. normalized y = normalized x \<longrightarrow> confidence y \<le> confidence x)"
    using unique_inv_values [OF inv] sr by blast
  have p5: "map normalized (filter (\<lambda>x. confidence x = k) r) =
        filter (\<lambda>t. \<exists>x \<in> set r. normalized x = t \<and> confidence x = k)
          (first_seen (map normalized cs))" for k
  proof -
    have "map normalized (filter (\<lambda>x. confidence x = k) r)
        = map normalized (filter (\<lambda>x. confidence x = k) ?r0)" by (simp only: stab)
    also have "\<dots> = filter (\<lambda>t. \<exists>x \<in> set ?r0. normalized x = t \<and> confidence x = k)
        (map normalized ?r0)" using d0 by (rule filter_tokens)
    finally show ?thesis by (simp only: sr tok)
  qed
  from p1 p2 p3 srt p5 show ?thesis by blast
qed

lemma known_symptom_matches_entry:
  "x \<in> set (known_symptom_matches e t c m) \<Longrightarrow>
   confidence x = c \<and> normalized x \<in> fst ` set (symptoms_dict e)"
  by (force simp add: known_symptom_matches_def)

lemma known_entry_entry:
  assumes "x \<in> set (known_entry e tok c m)"
  shows "confidence x = c \<and> normalized x \<in> fst ` set (symptoms_dict e)"
proof (cases "map_of (symptoms_dict e) tok")
  case None
  with assms show ?thesis by (simp add: known_entry_def)
next
  case (Some v)
  then have "(tok, v) \<in> set (symptoms_dict e)" by (rule map_of_SomeD)
  then have "tok \<in> fst ` set (symptoms_dict e)" by force
  with assms Some show ?thesis by (simp add: known_entry_def)
qed

lemma synonym_matches_entry:
  "x \<in> set (synonym_matches e t c m) \<Longrightarrow>
   confidence x = c \<and> normalized x \<in> fst ` set (symptoms_dict e)"
  by (auto simp add: synonym_matches_def dest!: known_entry_entry split: if_splits)

lemma noun_chunk_matches_entry:
  "x \<in> set (noun_chunk_matches e chunks) \<Longrightarrow>
   confidence x = 7/10 \<and> normalized x \<in> fst ` set (symptoms_dict e)"
  by (auto simp add: noun_chunk_matches_def dest!: known_entry_entry)

lemma sorted_wrt_constant:
  "\<forall>x \<in> set xs. f x = (c::rat) \<Longrightarrow> sorted_wrt (\<lambda>a b. f b \<le> f a) xs"
  by (induction xs) auto

lemma fallback_candidates_sorted:
  "sorted_wrt (\<lambda>a b. confidence b \<le> confidence a) (fallback_candidates e t)"
proof -
  have a: "\<forall>x \<in> set (known_symptom_matches e t (8/10) ''keyword_match''). confidence x = 8/10"
    using known_symptom_matches_entry by blast
  have b: "\<forall>x \<in> set (synonym_matches e t (75/100) ''synonym_keyword''). confidence x = 75/100"
    using synonym_matches_entry by blast
  have cross: "confidence y \<le> confidence x"
    if "x \<in> set (known_symptom_matches e t (8/10) ''keyword_match'')"
      and "y \<in> set (synonym_matches e t (75/100) ''synonym_keyword'')" for x y
  proof -
    from that a b have "confidence x = 8/10" "confidence y = 75/100" by blast+
    then show ?thesis by simp
  qed
  show ?thesis
    unfolding fallback_candidates_def sorted_wrt_append
    using sorted_wrt_constant [OF a] sorted_wrt_constant [OF b] cross by blast
qed

text \<open>
  Claim C4: in full mode and in fallback mode, the list \<open>extract_symptoms\<close> returns
  has one entry per normalized token; its tokens are those of the candidates; every
  entry is a candidate whose confidence is the highest among the candidates with its
  token; the list is in descending order of confidence; and the entries of equal
  confidence stand in the order in which their tokens were first seen.
\<close>

theorem extract_symptoms_deduplicated_sorted:
  "distinct (map normalized (extract_symptoms e t l)) \<and>
   set (map normalized (extract_symptoms e t l))
     = set (map normalized (extraction_candidates e t l)) \<and>
   (\<forall>x \<in> set (extract_symptoms e t l). x \<in> set (extraction_candidates e t l) \<and>
      (\<forall>y \<in> set (extraction_candidates e t l).
         normalized y = normalized x \<longrightarrow> confidence y \<le> confidence x)) \<and>
   sorted_wrt (\<lambda>a b. confidence b \<le> confidence a) (extract_symptoms e t l) \<and>
   (\<forall>k. map normalized (filter (\<lambda>x. confidence x = k) (extract_symptoms e t l)) =
      filter (\<lambda>tok. \<exists>x \<in> set (extract_symptoms e t l). normalized x = tok \<and> confidence x = k)
        (first_seen (map normalized (extraction_candidates e t l))))"
proof (cases "selected_nlp e t l")
  case None
  let ?cs = "fallback_candidates e t"
  let ?u = "foldl keep_first [] ?cs"
  have r: "extract_symptoms e t l = map snd ?u"
    by (simp add: extract_symptoms_def fallback_extraction_def None)
  have c: "extraction_candidates e t l = ?cs"
    by (simp add: extraction_candidates_def None)
  from keep_first_inv [OF fallback_candidates_sorted]
  have inv: "unique_inv ?cs ?u"
    and srt: "sorted_wrt (\<lambda>a b. confidence b \<le> confidence a) (map snd ?u)" by simp_all
  show ?thesis unfolding r c
    by (rule deduplicated_properties [OF inv _ srt]) simp_all
next
  case (Some nlp)
  let ?cs = "full_candidates e t (nlp (py_lower t))"
  let ?u = "foldl keep_highest [] ?cs"
  have r: "extract_symptoms e t l = py_sort_reverse confidence (map snd ?u)"
    by (simp add: extract_symptoms_def Some Let_def)
  have c: "extraction_candidates e t l = ?cs"
    by (simp add: extraction_candidates_def Some)
  have inv: "unique_inv ?cs ?u" by (rule keep_highest_inv)
  show ?thesis unfolding r c
    by (rule deduplicated_properties [OF inv])
      (simp_all add: py_sort_reverse_mset py_sort_reverse_sorted py_sort_reverse_stable)
qed

lemma fallback_candidates_in_vocabulary:
  assumes "x \<in> set (fallback_candidates e t)"
  shows "normalized x \<in> fst ` set (symptoms_dict e)"
proof -
  from assms consider
    "x \<in> set (known_symptom_matches e t (8/10) ''keyword_match'')"
    | "x \<in> set (synonym_matches e t (75/100) ''synonym_keyword'')"
    by (auto simp add: fallback_candidates_def)
  then show ?thesis
  proof cases
    case 1
    then show ?thesis by (simp add: known_symptom_matches_entry)
  next
    case 2
    then show ?thesis by (simp add: synonym_matches_entry)
  qed
qed

lemma full_candidates_in_vocabulary:
  assumes "x \<in> set (full_candidates e t chunks)"
  shows "normalized x \<in> fst ` set (symptoms_dict e)"
proof -
  from assms consider
    "x \<in> set (known_symptom_matches e t (9/10) ''exact_match'')"
    | "x \<in> set (synonym_matches e t (85/100) ''synonym_match'')"
    | "x \<in> set (noun_chunk_matches e chunks)"
    by (auto simp add: full_candidates_def)
  then show ?thesis
  proof cases
    case 1
    then show ?thesis by (simp add: known_symptom_matches_entry)
  next
    case 2
    then show ?thesis by (simp add: synonym_matches_entry)
  next
    case 3
    then show ?thesis by (simp add: noun_chunk_matches_entry)
  qed
qed

lemma extraction_candidates_in_vocabulary:
  assumes "x \<in> set (extraction_candidates e t l)"
  shows "normalized x \<in> fst ` set (symptoms_dict e)"
proof (cases "selected_nlp e t l")
  case None
  with assms have "x \<in> set (fallback_candidates e t)"
    by (simp add: extraction_candidates_def)
  then show ?thesis by (rule fallback_candidates_in_vocabulary)
next
  case (Some nlp)
  with assms have "x \<in> set (full_candidates e t (nlp (py_lower t)))"
    by (simp add: extraction_candidates_def)
  then show ?thesis by (rule full_candidates_in_vocabulary)
qed

lemma extract_symptoms_from_candidates:
  assumes "x \<in> set (extract_symptoms e t l)"
  shows "x \<in> set (extraction_candidates e t l)"
proof (cases "selected_nlp e t l")
  case None
  let ?cs = "fallback_candidates e t"
  have inv: "unique_inv ?cs (foldl keep_first [] ?cs)"
    using keep_first_inv [OF fallback_candidates_sorted] by simp
  from assms have "x \<in> set (map snd (foldl keep_first [] ?cs))"
    by (simp add: extract_symptoms_def fallback_extraction_def None del: set_map)
  with unique_inv_values [OF inv] have "x \<in> set ?cs" by blast
  then show ?thesis by (simp add: extraction_candidates_def None)
next
  case (Some nlp)
  let ?cs = "full_candidates e t (nlp (py_lower t))"
  have inv: "unique_inv ?cs (foldl keep_highest [] ?cs)" by (rule keep_highest_inv)
  have "set (py_sort_reverse confidence xs) = set xs" for xs :: "extraction list"
    by (metis py_sort_reverse_mset set_mset_mset)
  with assms have "x \<in> set (map snd (foldl keep_highest [] ?cs))"
    by (simp add: extract_symptoms_def Some Let_def del: set_map)
  with unique_inv_values [OF inv] have "x \<in> set ?cs" by blast
  then show ?thesis by (simp add: extraction_candidates_def Some)
qed

text \<open>
  Claim C10: the normalized token of every entry that \<open>extract_symptoms\<close> returns, in
  full and in fallback mode, is a key of \<open>symptoms_dict\<close>.
\<close>

theorem extract_symptoms_in_vocabulary:
  assumes "x \<in> set (extract_symptoms e t l)"
  shows "normalized x \<in> fst ` set (symptoms_dict e)"
proof -
  from assms have "x \<in> set (extraction_candidates e t l)"
    by (rule extract_symptoms_from_candidates)
  then show ?thesis by (rule extraction_candidates_in_vocabulary)
qed

lemma example_extraction_full:
  "extract_symptoms example_extractor ''I have a headache , skin rash and itching'' (Some ''en'')
     = [\<lparr>symptom = ''itching'', normalized = ''itching'', confidence = 9/10,
          extraction_method = ''exact_match''\<rparr>,
        \<lparr>symptom = ''headache'', normalized = ''headache'', confidence = 9/10,
          extraction_method = ''exact_match''\<rparr>,
        \<lparr>symptom = ''skin_rash'', normalized = ''skin_rash'', confidence = 85/100,
          extraction_method = ''synonym_match''\<rparr>]"
  by code_simp

lemma example_extraction_fallback:
  "extract_symptoms example_extractor ''I have a headache , skin rash and itching'' (Some ''fr'')
     = [\<lparr>symptom = ''itching'', normalized = ''itching'', confidence = 8/10,
          extraction_method = ''keyword_match''\<rparr>,
        \<lparr>symptom = ''headache'', normalized = ''headache'', confidence = 8/10,
          extraction_method = ''keyword_match''\<rparr>,
        \<lparr>symptom = ''skin_rash'', normalized = ''skin_rash'', confidence = 75/100,
          extraction_method = ''synonym_keyword''\<rparr>]"
  by code_simp

lemma example_symptoms_dict:
  "symptoms_dict example_extractor =
     [(''skin_rash'', ''skin_rash''), (''itching'', ''itching''),
      (''headache'', ''headache''), (''stomach_pain'', ''stomach_pain'')]"
  by code_simp

text \<open>
  On the example extractor, in fallback mode (no French pipeline) and in full mode: the
  two exact matches precede the synonym match, in the order of the dictionary.
\<close>

theorem extract_symptoms_witness:
  "distinct (map normalized (extract_symptoms example_extractor
      ''I have a headache , skin rash and itching'' (Some ''fr''))) \<and>
   sorted_wrt (\<lambda>a b. confidence b \<le> confidence a) (extract_symptoms example_extractor
      ''I have a headache , skin rash and itching'' (Some ''fr'')) \<and>
   map normalized (extract_symptoms example_extractor
      ''I have a headache , skin rash and itching'' (Some ''fr''))
     = [''itching'', ''headache'', ''skin_rash''] \<and>
   map confidence (extract_symptoms example_extractor
      ''I have a headache , skin rash and itching'' (Some ''en''))
     = [9/10, 9/10, 85/100]"
  using extract_symptoms_deduplicated_sorted
    [of example_extractor "''I have a headache , skin rash and itching''" "Some ''fr''"]
  by (simp add: example_extraction_fallback example_extraction_full)

text \<open>The synonym match \<open>skin rash\<close> of the example carries a token of the vocabulary.\<close>

theorem extract_symptoms_in_vocabulary_witness:
  "\<lparr>symptom = ''skin_rash'', normalized = ''skin_rash'', confidence = 85/100,
      extraction_method = ''synonym_match''\<rparr>
     \<in> set (extract_symptoms example_extractor
          ''I have a headache , skin rash and itching'' (Some ''en'')) \<and>
   ''skin_rash'' \<in> fst ` set (symptoms_dict example_extractor)"
proof -
  let ?x = "\<lparr>symptom = ''skin_rash'', normalized = ''skin_rash'', confidence = 85/100,
      extraction_method = ''synonym_match''\<rparr>"
  have m: "?x \<in> set (extract_symptoms example_extractor
          ''I have a headache , skin rash and itching'' (Some ''en''))"
    by (simp add: example_extraction_full)
  from extract_symptoms_in_vocabulary [OF m] m show ?thesis by simp
qed

section \<open>Response generation: the templated fallback\<close>

lemma sublist_left: "sublist x a \<Longrightarrow> sublist x (a @ b)"
  by (auto simp add: sublist_def) (metis append.assoc)

lemma sublist_right: "sublist x b \<Longrightarrow> sublist x (a @ b)"
  by (auto simp add: sublist_def) (metis append.assoc)

lemma sublist_at2: "sublist x (a @ x @ r)"
  by (rule sublist_appendI)

lemma sublist_at3: "sublist x (a @ b @ x @ r)"
  by (intro sublist_right sublist_at2)

lemma sublist_at5: "sublist x (a @ b @ c @ d @ x @ r)"
  by (intro sublist_right sublist_at3)

lemma sublist_at6: "sublist x (a @ b @ c @ d @ e @ x @ r)"
  by (intro sublist_right sublist_at5)

lemma sublist_lines:
  assumes "p \<in> set ps"
  shows "sublist p (concat (map (\<lambda>q. pre @ q @ post) ps))"
proof -
  from assms obtain xs ys where "ps = xs @ p # ys" by (auto dest: split_list)
  then have "concat (map (\<lambda>q. pre @ q @ post) ps) =
      concat (map (\<lambda>q. pre @ q @ post) xs) @ (pre @ p @ post) @
      concat (map (\<lambda>q. pre @ q @ post) ys)" by simp
  then show ?thesis
    by (simp only: sublist_at2 sublist_right sublist_left)
qed

lemma header_has_name: "sublist (name d) (fallback_header lang d)"
  unfolding fallback_header_def
  by (cases "lang = ''fr''") (simp_all only: if_True if_False simp_thms sublist_at2)

lemma header_has_urgency:
  "sublist (py_upper (get_or (urgency d) (if lang = ''fr'' then ''moyenne'' else ''medium'')))
     (fallback_header lang d)"
  unfolding fallback_header_def
  by (cases "lang = ''fr''") (simp_all only: if_True if_False simp_thms sublist_at6)

lemma get_or_Some: "get_or (Some x) dflt = x"
  by (simp add: get_or_def)

lemma specialty_name_line:
  assumes "specialty d = Some spec" and "spec_specialty spec = Some s"
  shows "sublist s (fallback_specialty lang d)"
proof -
  from assms have so: "specialty_of d = Some spec" by (simp add: specialty_of_def)
  show ?thesis
    unfolding fallback_specialty_def so option.case assms(2) get_or_Some
    by (cases "lang = ''fr''") (simp_all only: if_True if_False sublist_at2 simp_thms)
qed

lemma specialty_department_line:
  assumes "specialty d = Some spec" and "spec_department spec = Some dep"
  shows "sublist dep (fallback_specialty lang d)"
proof -
  from assms have so: "specialty_of d = Some spec" by (simp add: specialty_of_def)
  show ?thesis
    unfolding fallback_specialty_def so option.case assms(2) get_or_Some
    by (cases "lang = ''fr''") (simp_all only: if_True if_False sublist_at5 simp_thms)
qed

lemma precaution_lines:
  assumes "p \<in> set (precautions_of d)"
  shows "sublist p (fallback_precautions lang d)"
proof -
  from assms have ne: "precautions_of d \<noteq> []" by auto
  from assms have "sublist p (concat (map (\<lambda>q. ''   - '' @ q @ [CHR 0x0A]) (precautions_of d)))"
    by (rule sublist_lines)
  then show ?thesis
    unfolding fallback_precautions_def
    by (simp only: ne if_False sublist_right)
qed

lemma fallback_parts:
  "fallback_response (d # ds) lang =
     fallback_header lang d @ fallback_specialty lang d @ fallback_precautions lang d @
     fallback_disclaimer lang"
  by (simp add: fallback_response_def)

lemma disclaimer_text:
  "suffix
     (if lang = ''fr'' then
        ''**Important**: Cette analyse est indicative. Consultez un professionnel de sant'' @
        [CHR 0xC3, CHR 0xA9] @ '' pour un diagnostic pr'' @ [CHR 0xC3, CHR 0xA9] @ ''cis.''
      else ''**Important**: This analysis is indicative. Consult a healthcare professional '' @
        ''for an accurate diagnosis.'')
     (fallback_disclaimer lang)"
proof (cases "lang = ''fr''")
  case True
  have "fallback_disclaimer lang =
      [CHR 0x0A, CHR 0xE2, CHR 0x9A, CHR 0x95, CHR 0xEF, CHR 0xB8, CHR 0x8F, CHR '' ''] @
      (''**Important**: Cette analyse est indicative. Consultez un professionnel de sant'' @
        [CHR 0xC3, CHR 0xA9] @ '' pour un diagnostic pr'' @ [CHR 0xC3, CHR 0xA9] @ ''cis.'')"
    using True by (simp add: fallback_disclaimer_def)
  then show ?thesis by (simp only: True refl if_True suffix_def) blast
next
  case False
  have "fallback_disclaimer lang =
      [CHR 0x0A, CHR 0xE2, CHR 0x9A, CHR 0x95, CHR 0xEF, CHR 0xB8, CHR 0x8F, CHR '' ''] @
      (''**Important**: This analysis is indicative. Consult a healthcare professional '' @
        ''for an accurate diagnosis.'')"
    using False by (simp add: fallback_disclaimer_def)
  then show ?thesis by (simp only: False if_False suffix_def) blast
qed


text \<open>
  Claim C8: whenever the text-generation collaborator is unavailable (\<open>self.llm is None\<close>)
  or its invocation raises, \<open>generate_response\<close> returns the templated response of
  \<open>_fallback_response\<close> for the same results and language, as a value, and leaves the
  engine as it was. For a non-empty list of results that response contains the name of the
  top disease, its urgency in upper case (the default of the language when the key is
  absent), the specialty name and the department name whenever the specialty dictionary
  holds them, and each of the first three precautions; it ends with the safety disclaimer,
  given here by its text in both languages; and it does not depend on the other results nor
  on the precautions after the third.
\<close>

theorem generate_response_falls_back:
  "(llm self = None \<longrightarrow>
      generate_response self user_input qr l
        = (fallback_response qr (language_or l (language self)), self)) \<and>
   (llm self = Some model \<longrightarrow>
      model (full_prompt self user_input qr (language_or l (language self))) = Inl e \<longrightarrow>
      generate_response self user_input qr l
        = (fallback_response qr (language_or l (language self)), self)) \<and>
   sublist (name d) (fallback_response (d # ds) lang) \<and>
   sublist (py_upper (get_or (urgency d) (if lang = ''fr'' then ''moyenne'' else ''medium'')))
     (fallback_response (d # ds) lang) \<and>
   (specialty d = Some spec \<longrightarrow> spec_specialty spec = Some s \<longrightarrow>
      sublist s (fallback_response (d # ds) lang)) \<and>
   (specialty d = Some spec \<longrightarrow> spec_department spec = Some dep \<longrightarrow>
      sublist dep (fallback_response (d # ds) lang)) \<and>
   (\<forall>p \<in> set (take 3 (get_or (precautions d) [])). sublist p (fallback_response (d # ds) lang)) \<and>
   suffix
     (if lang = ''fr'' then
        ''**Important**: Cette analyse est indicative. Consultez un professionnel de sant'' @
        [CHR 0xC3, CHR 0xA9] @ '' pour un diagnostic pr'' @ [CHR 0xC3, CHR 0xA9] @ ''cis.''
      else ''**Important**: This analysis is indicative. Consult a healthcare professional '' @
        ''for an accurate diagnosis.'')
     (fallback_response (d # ds) lang) \<and>
   fallback_response (d # ds) lang
     = fallback_response [d\<lparr>precautions := map_option (take 3) (precautions d)\<rparr>] lang"
proof (intro conjI impI ballI)
  assume "llm self = None"
  then show "generate_response self user_input qr l
        = (fallback_response qr (language_or l (language self)), self)"
    by (simp add: generate_response_def)
next
  assume "llm self = Some model"
    and "model (full_prompt self user_input qr (language_or l (language self))) = Inl e"
  then show "generate_response self user_input qr l
        = (fallback_response qr (language_or l (language self)), self)"
    by (simp add: generate_response_def Let_def)
next
  show "sublist (name d) (fallback_response (d # ds) lang)"
    unfolding fallback_parts by (intro sublist_left header_has_name)
next
  show "sublist (py_upper (get_or (urgency d) (if lang = ''fr'' then ''moyenne'' else ''medium'')))
     (fallback_response (d # ds) lang)"
    unfolding fallback_parts by (intro sublist_left header_has_urgency)
next
  assume "specialty d = Some spec" and "spec_specialty spec = Some s"
  then have "sublist s (fallback_specialty lang d)" by (rule specialty_name_line)
  then show "sublist s (fallback_response (d # ds) lang)"
    unfolding fallback_parts by (intro sublist_right sublist_left)
next
  assume "specialty d = Some spec" and "spec_department spec = Some dep"
  then have "sublist dep (fallback_specialty lang d)" by (rule specialty_department_line)
  then show "sublist dep (fallback_response (d # ds) lang)"
    unfolding fallback_parts by (intro sublist_right sublist_left)
next
  fix p assume "p \<in> set (take 3 (get_or (precautions d) []))"
  then have "p \<in> set (precautions_of d)"
    by (simp add: precautions_of_def get_or_def split: option.splits)
  then have "sublist p (fallback_precautions lang d)" by (rule precaution_lines)
  then show "sublist p (fallback_response (d # ds) lang)"
    unfolding fallback_parts by (intro sublist_right sublist_left)
next
  have "suffix (fallback_disclaimer lang) (fallback_response (d # ds) lang)"
    unfolding fallback_parts by (simp add: suffix_def)
  with disclaimer_text [of lang] show "suffix
     (if lang = ''fr'' then
        ''**Important**: Cette analyse est indicative. Consultez un professionnel de sant'' @
        [CHR 0xC3, CHR 0xA9] @ '' pour un diagnostic pr'' @ [CHR 0xC3, CHR 0xA9] @ ''cis.''
      else ''**Important**: This analysis is indicative. Consult a healthcare professional '' @
        ''for an accurate diagnosis.'')
     (fallback_response (d # ds) lang)"
    by (rule suffix_order.trans)
next
  show "fallback_response (d # ds) lang
     = fallback_response [d\<lparr>precautions := map_option (take 3) (precautions d)\<rparr>] lang"
    by (simp add: fallback_parts fallback_header_def fallback_specialty_def
        fallback_precautions_def precautions_of_def specialty_of_def split: option.splits)
qed

lemma fourth_precaution_left_out:
  "\<not> sublist ''use clean cloths'' (fallback_response [fungal_result] ''en'')"
  by code_simp

text \<open>
  The theorem at an engine without a collaborator and at one whose collaborator always
  raises, for a result with a specialty and four precautions: both return the templated
  response, which names the disease, its urgency, the specialty, the department and the
  third precaution, leaves the fourth precaution out and ends with the disclaimer.
\<close>

theorem generate_response_witness:
  "generate_response offline_engine ''I have a rash'' [fungal_result] (Some ''en'')
     = (fallback_response [fungal_result] ''en'', offline_engine) \<and>
   generate_response failing_engine ''I have a rash'' [fungal_result] None
     = (fallback_response [fungal_result] ''fr'', failing_engine) \<and>
   sublist ''Fungal infection'' (fallback_response [fungal_result] ''en'') \<and>
   sublist ''LOW'' (fallback_response [fungal_result] ''en'') \<and>
   sublist ''Dermatology'' (fallback_response [fungal_result] ''en'') \<and>
   sublist ''Skin Department'' (fallback_response [fungal_result] ''en'') \<and>
   sublist ''keep infected area dry'' (fallback_response [fungal_result] ''en'') \<and>
   \<not> sublist ''use clean cloths'' (fallback_response [fungal_result] ''en'') \<and>
   suffix ''Consult a healthcare professional for an accurate diagnosis.''
     (fallback_response [fungal_result] ''en'')"
proof -
  have off: "llm offline_engine = None" by (simp add: offline_engine_def)
  have a: "generate_response offline_engine ''I have a rash'' [fungal_result] (Some ''en'')
     = (fallback_response [fungal_result] ''en'', offline_engine)"
    using generate_response_falls_back
      [of offline_engine "''I have a rash''" "[fungal_result]" "Some ''en''"] off
    by (simp add: language_or_def)
  have fl: "llm failing_engine = Some (\<lambda>prompt. Inl (LLMError ''connection refused''))"
    by (simp add: failing_engine_def)
  have b: "generate_response failing_engine ''I have a rash'' [fungal_result] None
     = (fallback_response [fungal_result] ''fr'', failing_engine)"
    using generate_response_falls_back
      [of failing_engine "''I have a rash''" "[fungal_result]" None
          "\<lambda>prompt. Inl (LLMError ''connection refused'')" "LLMError ''connection refused''"] fl
    by (simp add: language_or_def failing_engine_def)
  let ?spec = "\<lparr>spec_specialty = Some ''Dermatology'',
      spec_department = Some ''Skin Department'', spec_location = Some ''Building A, 3rd Floor''\<rparr>"
  have sp: "specialty fungal_result = Some ?spec" by (simp add: fungal_result_def)
  have sn: "spec_specialty ?spec = Some ''Dermatology''" by simp
  have sd: "spec_department ?spec = Some ''Skin Department''" by simp
  have pr: "''keep infected area dry'' \<in> set (take 3 (get_or (precautions fungal_result) []))"
    by (simp add: fungal_result_def get_or_def)
  have nm: "name fungal_result = ''Fungal infection''" by (simp add: fungal_result_def)
  have ur: "py_upper (get_or (urgency fungal_result) ''medium'') = ''LOW''"
    by code_simp
  have en: "(if ''en'' = ''fr'' then ''moyenne'' else ''medium'') = ''medium''" by simp
  note t = generate_response_falls_back
    [where d = fungal_result and ds = "[]" and lang = "''en''" and spec = ?spec
       and s = "''Dermatology''" and dep = "''Skin Department''"]
  from t [unfolded en] sp sn sd pr
  have c: "sublist (name fungal_result) (fallback_response [fungal_result] ''en'') \<and>
      sublist (py_upper (get_or (urgency fungal_result) ''medium''))
        (fallback_response [fungal_result] ''en'') \<and>
      sublist ''Dermatology'' (fallback_response [fungal_result] ''en'') \<and>
      sublist ''Skin Department'' (fallback_response [fungal_result] ''en'') \<and>
      sublist ''keep infected area dry'' (fallback_response [fungal_result] ''en'')"
    by blast
  have "suffix (''**Important**: This analysis is indicative. Consult a healthcare professional '' @
        ''for an accurate diagnosis.'') (fallback_response [fungal_result] ''en'')"
    using t [THEN conjunct2, THEN conjunct2, THEN conjunct2, THEN conjunct2, THEN conjunct2,
      THEN conjunct2, THEN conjunct2, THEN conjunct1] by simp
  then have e: "suffix ''Consult a healthcare professional for an accurate diagnosis.''
     (fallback_response [fungal_result] ''en'')"
    by (rule suffix_order.trans [rotated]) (simp add: suffix_def)
  from a b c e fourth_precaution_left_out show ?thesis by (simp only: nm ur) simp
qed
end
